theory Spec2Isabelle
  imports Complex_Main "HOL-Library.Extended_Nat" "HOL-Library.AList"
begin

section \<open>JavaScript numbers\<close>

text \<open>
  The amortization engine of \<^verbatim>\<open>server.js\<close> computes with JavaScript numbers. A finite
  number is modelled by the real it denotes (exact arithmetic: no binary rounding error and
  no overflow); the three non-finite values that the engine can produce (\<^verbatim>\<open>Infinity\<close>
  assigned by the Keep-EMI scenario, and \<^verbatim>\<open>NaN\<close> or an infinity from a division by
  zero) are values of their own. Zero has no sign here: the only divisors of the engine that
  can be zero are \<^verbatim>\<open>Math.log(1)\<close> and \<^verbatim>\<open>factor - 1\<close>, both \<^verbatim>\<open>+0\<close>.
\<close>

datatype jsnum = Num real | PosInf | NegInf | NaN

fun js_neg :: "jsnum \<Rightarrow> jsnum" where
  "js_neg (Num x) = Num (- x)"
| "js_neg PosInf = NegInf"
| "js_neg NegInf = PosInf"
| "js_neg NaN = NaN"

text \<open>\<^verbatim>\<open>a + b\<close>\<close>

fun js_add :: "jsnum \<Rightarrow> jsnum \<Rightarrow> jsnum" where
  "js_add (Num x) (Num y) = Num (x + y)"
| "js_add NaN b = NaN"
| "js_add a NaN = NaN"
| "js_add PosInf NegInf = NaN"
| "js_add NegInf PosInf = NaN"
| "js_add PosInf b = PosInf"
| "js_add NegInf b = NegInf"
| "js_add (Num x) b = b"

text \<open>\<^verbatim>\<open>a - b\<close>\<close>

definition js_sub :: "jsnum \<Rightarrow> jsnum \<Rightarrow> jsnum" where
  "js_sub a b = js_add a (js_neg b)"

text \<open>\<^verbatim>\<open>a * x\<close> for a finite \<open>x\<close> (the monthly rate)\<close>

fun js_scale :: "jsnum \<Rightarrow> real \<Rightarrow> jsnum" where
  "js_scale (Num b) x = Num (b * x)"
| "js_scale NaN x = NaN"
| "js_scale PosInf x = (if x = 0 then NaN else if 0 < x then PosInf else NegInf)"
| "js_scale NegInf x = (if x = 0 then NaN else if 0 < x then NegInf else PosInf)"

text \<open>\<^verbatim>\<open>a / b\<close>, a zero divisor being \<^verbatim>\<open>+0\<close>\<close>

fun js_div :: "jsnum \<Rightarrow> jsnum \<Rightarrow> jsnum" where
  "js_div (Num x) (Num y) =
     (if y = 0 then (if x = 0 then NaN else if 0 < x then PosInf else NegInf)
      else Num (x / y))"
| "js_div NaN b = NaN"
| "js_div a NaN = NaN"
| "js_div (Num x) b = Num 0"
| "js_div PosInf (Num y) = (if 0 \<le> y then PosInf else NegInf)"
| "js_div NegInf (Num y) = (if 0 \<le> y then NegInf else PosInf)"
| "js_div PosInf b = NaN"
| "js_div NegInf b = NaN"

text \<open>\<^verbatim>\<open>a > b\<close> and \<^verbatim>\<open>a <= b\<close>: every comparison with \<^verbatim>\<open>NaN\<close> is false.\<close>

fun js_gt :: "jsnum \<Rightarrow> jsnum \<Rightarrow> bool" where
  "js_gt (Num x) (Num y) = (y < x)"
| "js_gt NaN b = False"
| "js_gt a NaN = False"
| "js_gt PosInf b = (b \<noteq> PosInf)"
| "js_gt NegInf b = False"
| "js_gt (Num x) b = (b = NegInf)"

fun js_lt :: "jsnum \<Rightarrow> jsnum \<Rightarrow> bool" where
  "js_lt a b = js_gt b a"

fun js_le :: "jsnum \<Rightarrow> jsnum \<Rightarrow> bool" where
  "js_le (Num x) (Num y) = (x \<le> y)"
| "js_le NaN b = False"
| "js_le a NaN = False"
| "js_le NegInf b = True"
| "js_le PosInf b = (b = PosInf)"
| "js_le (Num x) b = (b = PosInf)"

text \<open>
  \<^verbatim>\<open>function round(x) { return Math.round(x); }\<close>: the nearest integer, a half rounded
  towards \<open>+\<infinity>\<close>; \<open>round_real\<close> is \<^verbatim>\<open>round\<close> on a finite number.
\<close>

definition round_real :: "real \<Rightarrow> real" where
  "round_real x = of_int \<lfloor>x + 1 / 2\<rfloor>"

fun round_js :: "jsnum \<Rightarrow> jsnum" where
  "round_js (Num x) = Num (round_real x)"
| "round_js a = a"

text \<open>\<^verbatim>\<open>Math.max(a, b)\<close>\<close>

fun Math_max :: "jsnum \<Rightarrow> jsnum \<Rightarrow> jsnum" where
  "Math_max (Num x) (Num y) = Num (max x y)"
| "Math_max NaN b = NaN"
| "Math_max a NaN = NaN"
| "Math_max PosInf b = PosInf"
| "Math_max a PosInf = PosInf"
| "Math_max NegInf b = b"
| "Math_max a NegInf = a"

text \<open>\<^verbatim>\<open>Math.log(a)\<close>, \<^verbatim>\<open>Math.ceil(a)\<close>\<close>

fun Math_log :: "jsnum \<Rightarrow> jsnum" where
  "Math_log (Num x) = (if x < 0 then NaN else if x = 0 then NegInf else Num (ln x))"
| "Math_log PosInf = PosInf"
| "Math_log a = NaN"

fun Math_ceil :: "jsnum \<Rightarrow> jsnum" where
  "Math_ceil (Num x) = Num (of_int \<lceil>x\<rceil>)"
| "Math_ceil a = a"

section \<open>Forward amortization\<close>

datatype error = EmiTooSmall | TypeError | MissingInput

definition message :: "error \<Rightarrow> string" where
  "message e = (case e of
       EmiTooSmall \<Rightarrow> ''EMI too small to cover interest.''
     | TypeError \<Rightarrow> ''TypeError''
     | MissingInput \<Rightarrow> ''Provide either officialSchedule or principal + paidEmis to derive outstanding.'')"

record ScheduleRow =
  month :: nat
  emi_paid :: jsnum
  principal :: jsnum
  interest :: jsnum
  remaining :: jsnum

text \<open>
  The loop of \<^verbatim>\<open>amortizeUntilPaid(balance, monthlyRate, emi, maxMonths)\<close>, with its
  variables \<^verbatim>\<open>balance\<close>, \<^verbatim>\<open>month\<close> and \<^verbatim>\<open>out\<close> as arguments. The counter
  \<^verbatim>\<open>month\<close> is a natural number and \<^verbatim>\<open>maxMonths\<close> an iteration cap, \<open>\<infinity>\<close> for
  \<^verbatim>\<open>Infinity\<close>. With that cap the loop need not stop, so the result is an option:
  \<open>None\<close> is a run that never returns, \<open>Some (Inl e)\<close> a run that throws.
\<close>

partial_function (option) amortize_loop ::
  "real \<Rightarrow> jsnum \<Rightarrow> enat \<Rightarrow> jsnum \<Rightarrow> nat \<Rightarrow> ScheduleRow list \<Rightarrow> (error + ScheduleRow list) option"
where
  "amortize_loop monthlyRate emi maxMonths balance mth out =
     (if js_gt balance (Num 0) \<and> enat mth < maxMonths then
        (let mth' = mth + 1;
             interest = round_js (js_scale balance monthlyRate);
             principal = js_sub emi interest
         in if js_le principal (Num 0) then Some (Inl EmiTooSmall)
            else
              (let principal' = (if js_gt principal balance then balance else principal);
                   emiPaid = js_add interest principal';
                   balance' = round_js (js_sub balance principal')
               in amortize_loop monthlyRate emi maxMonths balance' mth'
                    (out @ [\<lparr>month = mth', emi_paid = emiPaid, principal = principal',
                              interest = interest, remaining = Math_max balance' (Num 0)\<rparr>])))
      else Some (Inr out))"

declare amortize_loop.simps [code]

definition amortizeUntilPaid ::
  "jsnum \<Rightarrow> real \<Rightarrow> jsnum \<Rightarrow> enat \<Rightarrow> (error + ScheduleRow list) option" where
  "amortizeUntilPaid balance monthlyRate emi maxMonths =
     amortize_loop monthlyRate emi maxMonths balance 0 []"

text \<open>
  The same loop with a finite cap, as a recursion on the number \<open>k\<close> of iterations that
  the cap still allows: \<open>amortize_loop\<close> with cap \<open>n\<close> at counter \<open>mth\<close> is
  \<open>amortize_steps\<close> with \<open>k = n - mth\<close> (lemma \<open>amortize_loop_finite\<close> below).
\<close>

fun amortize_steps ::
  "real \<Rightarrow> jsnum \<Rightarrow> nat \<Rightarrow> jsnum \<Rightarrow> nat \<Rightarrow> ScheduleRow list \<Rightarrow> error + ScheduleRow list"
where
  "amortize_steps monthlyRate emi 0 balance mth out = Inr out"
| "amortize_steps monthlyRate emi (Suc k) balance mth out =
     (if js_gt balance (Num 0) then
        (let mth' = mth + 1;
             interest = round_js (js_scale balance monthlyRate);
             principal = js_sub emi interest
         in if js_le principal (Num 0) then Inl EmiTooSmall
            else
              (let principal' = (if js_gt principal balance then balance else principal);
                   emiPaid = js_add interest principal';
                   balance' = round_js (js_sub balance principal')
               in amortize_steps monthlyRate emi k balance' mth'
                    (out @ [\<lparr>month = mth', emi_paid = emiPaid, principal = principal',
                              interest = interest, remaining = Math_max balance' (Num 0)\<rparr>])))
      else Inr out)"

section \<open>Target EMI\<close>

text \<open>
  \<^verbatim>\<open>computeEMI(balance, monthlyRate, months)\<close> for an integer number of months;
  \<^verbatim>\<open>Math.pow(1 + monthlyRate, months)\<close> is then a power of reals.
\<close>

definition computeEMI :: "real \<Rightarrow> real \<Rightarrow> int \<Rightarrow> jsnum" where
  "computeEMI balance monthlyRate months =
     (if months \<le> 0 then Num 0
      else
        (let factor = (1 + monthlyRate) ^ nat months
         in round_js (js_div (Num (balance * monthlyRate * factor)) (Num (factor - 1)))))"

section \<open>The reschedule request\<close>

subsection \<open>Starting outstanding\<close>

text \<open>
  The handler of \<^verbatim>\<open>POST /api/reschedule\<close> reads \<^verbatim>\<open>officialSchedule\<close> (here the list of
  the rows' \<^verbatim>\<open>Outstanding\<close> numbers, \<open>None\<close> when absent), \<^verbatim>\<open>principal\<close> (\<open>None\<close> when
  undefined), \<^verbatim>\<open>annualRate\<close>, \<^verbatim>\<open>emi\<close>, \<^verbatim>\<open>totalTenure\<close>, \<^verbatim>\<open>paidEmis\<close> and
  \<^verbatim>\<open>prepayments\<close>. Month numbers are integers. The database calls of the handler are
  not part of the model.
\<close>

definition monthlyRate_of :: "real \<Rightarrow> real" where
  "monthlyRate_of annualRate = (annualRate / 100) / 12"

text \<open>\<^verbatim>\<open>for (let m = 1; m <= paidEmis; m++) { ... }\<close>, \<open>k\<close> iterations\<close>

fun paid_loop :: "real \<Rightarrow> real \<Rightarrow> nat \<Rightarrow> real \<Rightarrow> real" where
  "paid_loop monthlyRate emi 0 outstanding = outstanding"
| "paid_loop monthlyRate emi (Suc k) outstanding =
     (let interest = round_real (outstanding * monthlyRate);
          principalPart = emi - interest;
          principalPart' = (if principalPart > outstanding then outstanding else principalPart)
      in paid_loop monthlyRate emi k (round_real (outstanding - principalPart')))"

text \<open>
  Reading \<^verbatim>\<open>officialSchedule[i].Outstanding\<close>: outside the array the element is
  \<^verbatim>\<open>undefined\<close> and the property access throws a TypeError.
\<close>

definition schedule_outstanding :: "real list \<Rightarrow> int \<Rightarrow> error + real" where
  "schedule_outstanding officialSchedule i =
     (if 0 \<le> i \<and> i < int (length officialSchedule) then Inr (officialSchedule ! nat i)
      else Inl TypeError)"

definition startingOutstanding ::
  "real list option \<Rightarrow> real option \<Rightarrow> real \<Rightarrow> real \<Rightarrow> int \<Rightarrow> error + real" where
  "startingOutstanding officialSchedule principalOpt monthlyRate emi paidEmis =
     (let fromPrincipal =
            (case principalOpt of
               Some p \<Rightarrow> Inr (paid_loop monthlyRate emi (nat paidEmis) p)
             | None \<Rightarrow> Inl MissingInput)
      in case officialSchedule of
           None \<Rightarrow> fromPrincipal
         | Some sched \<Rightarrow>
             if int (length sched) \<ge> max 0 paidEmis then
               (if paidEmis = 0 then
                  (case principalOpt of
                     Some p \<Rightarrow> if p \<noteq> 0 then Inr p else schedule_outstanding sched 0
                   | None \<Rightarrow> schedule_outstanding sched 0)
                else schedule_outstanding sched (paidEmis - 1))
             else fromPrincipal)"

subsection \<open>Merging the prepayment plan\<close>

text \<open>
  A prepayment after \<^verbatim>\<open>Number(p.month)\<close> and \<^verbatim>\<open>Number(p.amount)\<close>: \<open>None\<close> is
  \<^verbatim>\<open>NaN\<close> (a field that is not numeric), \<open>Some\<close> a finite number.
\<close>

record Prepayment =
  pmonth :: "int option"
  amount :: "real option"

text \<open>
  \<^verbatim>\<open>prepayMap\<close>, an object with one property per month, is an association list with
  distinct keys; a value \<open>None\<close> is \<^verbatim>\<open>NaN\<close>.
\<close>

type_synonym prepayMap = "(int \<times> real option) list"

text \<open>\<^verbatim>\<open>prepayMap[mm] || 0\<close>\<close>

definition prepay_or_zero :: "prepayMap \<Rightarrow> int \<Rightarrow> real" where
  "prepay_or_zero prepayMap mm =
     (case map_of prepayMap mm of Some (Some v) \<Rightarrow> v | Some None \<Rightarrow> 0 | None \<Rightarrow> 0)"

text \<open>One call of the \<^verbatim>\<open>forEach\<close> callback: \<^verbatim>\<open>if (!mm || aa <= 0) return;\<close>\<close>

definition add_prepayment :: "prepayMap \<Rightarrow> Prepayment \<Rightarrow> prepayMap" where
  "add_prepayment prepayMap p =
     (case pmonth p of
        None \<Rightarrow> prepayMap
      | Some mm \<Rightarrow>
          if mm = 0 then prepayMap
          else
            (case amount p of
               None \<Rightarrow> AList.update mm None prepayMap
             | Some aa \<Rightarrow>
                 if aa \<le> 0 then prepayMap
                 else AList.update mm (Some (prepay_or_zero prepayMap mm + aa)) prepayMap))"

definition build_prepayMap :: "Prepayment list \<Rightarrow> prepayMap" where
  "build_prepayMap prepayments = foldl add_prepayment [] prepayments"

text \<open>\<^verbatim>\<open>if (prepayMap[m])\<close>: the amount when the property exists and is truthy\<close>

definition prepay_at :: "prepayMap \<Rightarrow> int \<Rightarrow> real option" where
  "prepay_at prepayMap m =
     (case map_of prepayMap m of
        Some (Some v) \<Rightarrow> if v = 0 then None else Some v
      | Some None \<Rightarrow> None
      | None \<Rightarrow> None)"

definition lastPrepayMonth :: "prepayMap \<Rightarrow> int \<Rightarrow> int" where
  "lastPrepayMonth prepayMap paidEmis =
     (if prepayMap = [] then paidEmis else Max (set (map fst prepayMap)))"

definition simulateTargetMonth :: "prepayMap \<Rightarrow> int \<Rightarrow> int" where
  "simulateTargetMonth prepayMap paidEmis = max (lastPrepayMonth prepayMap paidEmis) paidEmis"

subsection \<open>Forward simulation up to the last prepayment\<close>

text \<open>
  The entries of \<^verbatim>\<open>simLog\<close>: \<open>EMI month emi_paid interest principal remaining_after_emi\<close>,
  and for both kinds of prepayment \<open>month prepay_amount before remaining_after_prepay\<close>.
\<close>

datatype SimEvent =
    EMI int real real real real
  | PREPAY int real real real
  | PREPAY_AFTER_ALREADY_PAID_EMI int real real real

text \<open>
  The EMI part of one iteration of the \<^verbatim>\<open>while (currentMonth < simulateTargetMonth)\<close>
  loop: the new outstanding and the logged entry.
\<close>

definition emi_step :: "real \<Rightarrow> real \<Rightarrow> int \<Rightarrow> real \<Rightarrow> real \<times> SimEvent" where
  "emi_step monthlyRate emi currentMonth outstanding =
     (let interest = round_real (outstanding * monthlyRate);
          principalPart = emi - interest;
          principalPart' = (if principalPart > outstanding then outstanding else principalPart);
          emiPaid = interest + principalPart';
          outstanding' = round_real (outstanding - principalPart')
      in (outstanding', EMI currentMonth emiPaid interest principalPart' outstanding'))"

text \<open>\<^verbatim>\<open>Math.max(0, round(outstanding - prepay))\<close>\<close>

definition apply_prepay :: "real \<Rightarrow> real \<Rightarrow> real" where
  "apply_prepay outstanding prepay = max 0 (round_real (outstanding - prepay))"

function simulate_loop ::
  "real \<Rightarrow> real \<Rightarrow> prepayMap \<Rightarrow> int \<Rightarrow> int \<Rightarrow> real \<Rightarrow> SimEvent list \<Rightarrow> real \<times> SimEvent list"
where
  "simulate_loop monthlyRate emi prepayMap target currentMonth outstanding simLog =
     (if currentMonth < target then
        (let currentMonth' = currentMonth + 1;
             (outstanding', ev) = emi_step monthlyRate emi currentMonth' outstanding;
             simLog' = simLog @ [ev]
         in case prepay_at prepayMap currentMonth' of
              Some prepay \<Rightarrow>
                (let before = outstanding';
                     outstanding'' = apply_prepay outstanding' prepay
                 in simulate_loop monthlyRate emi prepayMap target currentMonth' outstanding''
                      (simLog' @ [PREPAY currentMonth' prepay before outstanding'']))
            | None \<Rightarrow>
                simulate_loop monthlyRate emi prepayMap target currentMonth' outstanding' simLog')
      else (outstanding, simLog))"
  by pat_completeness auto
termination
  by (relation "measure (\<lambda>(monthlyRate, emi, prepayMap, target, currentMonth, outstanding, simLog).
        nat (target - currentMonth))") auto

text \<open>
  The loop followed by the \<^verbatim>\<open>if (prepayMap[paidEmis])\<close> block, which puts its entry at
  the head of the log (\<^verbatim>\<open>simLog.unshift\<close>): the pair of
  \<^verbatim>\<open>outstandingAfterPrepayments\<close> and \<^verbatim>\<open>simLog\<close>.
\<close>

definition simulate ::
  "real \<Rightarrow> real \<Rightarrow> prepayMap \<Rightarrow> int \<Rightarrow> real \<Rightarrow> real \<times> SimEvent list" where
  "simulate monthlyRate emi prepayMap paidEmis outstanding0 =
     (let (outstanding, simLog) =
            simulate_loop monthlyRate emi prepayMap (simulateTargetMonth prepayMap paidEmis)
              paidEmis outstanding0 []
      in case prepay_at prepayMap paidEmis of
           Some prepay \<Rightarrow>
             (let before = outstanding;
                  outstanding' = apply_prepay outstanding prepay
              in (outstanding',
                  PREPAY_AFTER_ALREADY_PAID_EMI paidEmis prepay before outstanding' # simLog))
         | None \<Rightarrow> (outstanding, simLog))"

subsection \<open>Scenario A: keep the EMI, reduce the tenure\<close>

record KeepEMI =
  monthsToFinish :: jsnum
  schedule :: "ScheduleRow list"
  totalInterest :: jsnum
  error :: "string option"

text \<open>
  The iterations that \<^verbatim>\<open>month < maxMonths\<close> allows to a counter that starts at 0 and
  is incremented by 1, for a number \<^verbatim>\<open>maxMonths\<close> (lemma \<open>iterationCap_less\<close> below).
\<close>

fun iterationCap :: "jsnum \<Rightarrow> enat" where
  "iterationCap (Num x) = enat (nat \<lceil>x\<rceil>)"
| "iterationCap PosInf = \<infinity>"
| "iterationCap NegInf = 0"
| "iterationCap NaN = 0"

text \<open>\<^verbatim>\<open>rows.reduce((s, r) => s + r.interest, 0)\<close>\<close>

definition sum_interest :: "ScheduleRow list \<Rightarrow> jsnum" where
  "sum_interest rows = foldl (\<lambda>s r. js_add s (interest r)) (Num 0) rows"

text \<open>
  The \<^verbatim>\<open>try\<close> block of Scenario A with its \<^verbatim>\<open>catch\<close>, which stores the message of
  the error in \<^verbatim>\<open>keepEMI.error\<close>; \<open>None\<close> when the schedule generation never returns.
\<close>

definition keepEMI_of :: "real \<Rightarrow> real \<Rightarrow> real \<Rightarrow> KeepEMI option" where
  "keepEMI_of emi outstandingAfterPrepayments monthlyRate =
     (let denom = emi - outstandingAfterPrepayments * monthlyRate
      in if denom \<le> 0 then
           Some \<lparr>monthsToFinish = PosInf, schedule = [], totalInterest = PosInf, error = None\<rparr>
         else
           (let n = js_div (Math_log (Num (emi / denom))) (Math_log (Num (1 + monthlyRate)));
                monthsToFinish = Math_ceil n
            in case amortizeUntilPaid (Num outstandingAfterPrepayments) monthlyRate (Num emi)
                      (iterationCap (js_add monthsToFinish (Num 5))) of
                 None \<Rightarrow> None
               | Some (Inl e) \<Rightarrow>
                   Some \<lparr>monthsToFinish = monthsToFinish, schedule = [], totalInterest = Num 0,
                         error = Some (message e)\<rparr>
               | Some (Inr rows) \<Rightarrow>
                   Some \<lparr>monthsToFinish = monthsToFinish, schedule = rows,
                         totalInterest = sum_interest rows, error = None\<rparr>))"

subsection \<open>Scenario B: keep the tenure, reduce the EMI\<close>

record ReduceEMI =
  newEmi :: jsnum
  remainingSchedule :: "ScheduleRow list"
  totalInterestB :: jsnum

text \<open>
  Scenario B has no \<^verbatim>\<open>try\<close> of its own: an error thrown by \<^verbatim>\<open>amortizeUntilPaid\<close>
  leaves the block (\<open>Inl\<close>).
\<close>

definition reduceEMI_of :: "real \<Rightarrow> real \<Rightarrow> int \<Rightarrow> int \<Rightarrow> (error + ReduceEMI) option" where
  "reduceEMI_of outstandingAfterPrepayments monthlyRate totalTenure monthsDone =
     (let remainingOfficial = totalTenure - monthsDone
      in if remainingOfficial > 0 then
           (let newEmi = computeEMI outstandingAfterPrepayments monthlyRate remainingOfficial
            in case amortizeUntilPaid (Num outstandingAfterPrepayments) monthlyRate newEmi
                      (enat (nat (remainingOfficial + 5))) of
                 None \<Rightarrow> None
               | Some (Inl e) \<Rightarrow> Some (Inl e)
               | Some (Inr rows) \<Rightarrow>
                   (let rows' = (if int (length rows) > remainingOfficial
                                 then take (nat remainingOfficial) rows else rows)
                    in Some (Inr \<lparr>newEmi = newEmi, remainingSchedule = rows',
                                  totalInterestB = sum_interest rows'\<rparr>)))
         else Some (Inr \<lparr>newEmi = Num 0, remainingSchedule = [], totalInterestB = Num 0\<rparr>))"

subsection \<open>The handler\<close>

record Response =
  simLog :: "SimEvent list"
  outstandingAfterPrepayments :: real
  keepEMI :: KeepEMI
  reduceEMI :: ReduceEMI

text \<open>
  \<^verbatim>\<open>app.post("/api/reschedule", ...)\<close>: \<open>Some (Inr response)\<close> is the reply
  \<^verbatim>\<open>{status: "ok", ...}\<close>, \<open>Some (Inl e)\<close> the reply of the outer \<^verbatim>\<open>catch\<close>
  (status 500 with the message of \<open>e\<close>) or, for \<open>MissingInput\<close>, the status 400.
\<close>

definition reschedule ::
  "real list option \<Rightarrow> real option \<Rightarrow> real \<Rightarrow> real \<Rightarrow> int \<Rightarrow> int \<Rightarrow> Prepayment list
     \<Rightarrow> (error + Response) option" where
  "reschedule officialSchedule principalOpt annualRate emi totalTenure paidEmis prepayments =
     (let monthlyRate = monthlyRate_of annualRate
      in case startingOutstanding officialSchedule principalOpt monthlyRate emi paidEmis of
           Inl e \<Rightarrow> Some (Inl e)
         | Inr outstanding0 \<Rightarrow>
             (let prepayMap = build_prepayMap prepayments;
                  (outstanding, log) = simulate monthlyRate emi prepayMap paidEmis outstanding0
              in case keepEMI_of emi outstanding monthlyRate of
                   None \<Rightarrow> None
                 | Some keep \<Rightarrow>
                     (case reduceEMI_of outstanding monthlyRate totalTenure
                             (simulateTargetMonth prepayMap paidEmis) of
                        None \<Rightarrow> None
                      | Some (Inl e) \<Rightarrow> Some (Inl e)
                      | Some (Inr reduce) \<Rightarrow>
                          Some (Inr \<lparr>simLog = log, outstandingAfterPrepayments = outstanding,
                                     keepEMI = keep, reduceEMI = reduce\<rparr>))))"

section \<open>The scenarios with the arithmetic left open\<close>

text \<open>
  The definitions above compute with exact reals, which a double only approximates: the
  code's \<^verbatim>\<open>Math.log\<close>, \<^verbatim>\<open>Math.pow\<close>, products, quotients and differences are rounded,
  and a quotient can be \<^verbatim>\<open>Infinity\<close> or \<^verbatim>\<open>NaN\<close> where the exact one is a number. For
  statements about the two scenarios that hold whatever these operations return, the same
  code follows once more with its arithmetic as a parameter: a value of \<open>arith\<close> gives, for
  each operator and library function of the scenarios, the number it returns. The
  arithmetic of doubles is one such value, \<open>exact\<close> is another.
\<close>

record arith =
  op_add :: "jsnum \<Rightarrow> jsnum \<Rightarrow> jsnum"
  op_sub :: "jsnum \<Rightarrow> jsnum \<Rightarrow> jsnum"
  op_mul :: "jsnum \<Rightarrow> jsnum \<Rightarrow> jsnum"
  op_div :: "jsnum \<Rightarrow> jsnum \<Rightarrow> jsnum"
  op_log :: "jsnum \<Rightarrow> jsnum"
  op_pow :: "jsnum \<Rightarrow> nat \<Rightarrow> jsnum"

text \<open>\<^verbatim>\<open>a * b\<close> and \<^verbatim>\<open>Math.pow(a, n)\<close> for a natural number \<open>n\<close>, on exact reals\<close>

fun js_mul :: "jsnum \<Rightarrow> jsnum \<Rightarrow> jsnum" where
  "js_mul a (Num y) = js_scale a y"
| "js_mul (Num x) b = js_scale b x"
| "js_mul NaN b = NaN"
| "js_mul a NaN = NaN"
| "js_mul PosInf b = b"
| "js_mul NegInf b = js_neg b"

fun js_pow :: "jsnum \<Rightarrow> nat \<Rightarrow> jsnum" where
  "js_pow a 0 = Num 1"
| "js_pow (Num x) n = Num (x ^ n)"
| "js_pow PosInf n = PosInf"
| "js_pow NegInf n = (if even n then PosInf else NegInf)"
| "js_pow NaN n = NaN"

definition exact :: arith where
  "exact = \<lparr>op_add = js_add, op_sub = js_sub, op_mul = js_mul, op_div = js_div,
             op_log = Math_log, op_pow = js_pow\<rparr>"

text \<open>\<^verbatim>\<open>computeEMI(balance, monthlyRate, months)\<close>\<close>

definition computeEMI_with :: "arith \<Rightarrow> real \<Rightarrow> real \<Rightarrow> int \<Rightarrow> jsnum" where
  "computeEMI_with A balance monthlyRate months =
     (if months \<le> 0 then Num 0
      else
        (let factor = op_pow A (op_add A (Num 1) (Num monthlyRate)) (nat months)
         in round_js (op_div A (op_mul A (op_mul A (Num balance) (Num monthlyRate)) factor)
                        (op_sub A factor (Num 1)))))"

text \<open>\<^verbatim>\<open>rows.reduce((s, r) => s + r.interest, 0)\<close>\<close>

definition sum_interest_with :: "arith \<Rightarrow> ScheduleRow list \<Rightarrow> jsnum" where
  "sum_interest_with A rows = foldl (\<lambda>s r. op_add A s (interest r)) (Num 0) rows"

text \<open>Scenario A: the \<^verbatim>\<open>try\<close> block with its \<^verbatim>\<open>catch\<close>\<close>

definition keepEMI_with :: "arith \<Rightarrow> real \<Rightarrow> real \<Rightarrow> real \<Rightarrow> KeepEMI option" where
  "keepEMI_with A emi outstandingAfter monthlyRate =
     (let denom = op_sub A (Num emi) (op_mul A (Num outstandingAfter) (Num monthlyRate))
      in if js_le denom (Num 0) then
           Some \<lparr>monthsToFinish = PosInf, schedule = [], totalInterest = PosInf, error = None\<rparr>
         else
           (let n = op_div A (op_log A (op_div A (Num emi) denom))
                      (op_log A (op_add A (Num 1) (Num monthlyRate)));
                monthsToFinish = Math_ceil n
            in case amortizeUntilPaid (Num outstandingAfter) monthlyRate (Num emi)
                      (iterationCap (op_add A monthsToFinish (Num 5))) of
                 None \<Rightarrow> None
               | Some (Inl e) \<Rightarrow>
                   Some \<lparr>monthsToFinish = monthsToFinish, schedule = [], totalInterest = Num 0,
                         error = Some (message e)\<rparr>
               | Some (Inr rows) \<Rightarrow>
                   Some \<lparr>monthsToFinish = monthsToFinish, schedule = rows,
                         totalInterest = sum_interest_with A rows, error = None\<rparr>))"

text \<open>Scenario B\<close>

definition reduceEMI_with ::
  "arith \<Rightarrow> real \<Rightarrow> real \<Rightarrow> int \<Rightarrow> int \<Rightarrow> (error + ReduceEMI) option" where
  "reduceEMI_with A outstandingAfter monthlyRate totalTenure monthsDone =
     (let remainingOfficial = totalTenure - monthsDone
      in if remainingOfficial > 0 then
           (let newEmi = computeEMI_with A outstandingAfter monthlyRate remainingOfficial
            in case amortizeUntilPaid (Num outstandingAfter) monthlyRate newEmi
                      (enat (nat (remainingOfficial + 5))) of
                 None \<Rightarrow> None
               | Some (Inl e) \<Rightarrow> Some (Inl e)
               | Some (Inr rows) \<Rightarrow>
                   (let rows' = (if int (length rows) > remainingOfficial
                                 then take (nat remainingOfficial) rows else rows)
                    in Some (Inr \<lparr>newEmi = newEmi, remainingSchedule = rows',
                                  totalInterestB = sum_interest_with A rows'\<rparr>)))
         else Some (Inr \<lparr>newEmi = Num 0, remainingSchedule = [], totalInterestB = Num 0\<rparr>))"

text \<open>
  The handler, from the monthly rate that its two divisions have given (\<^verbatim>\<open>monthlyRate\<close>)
  on.
\<close>

definition reschedule_with ::
  "arith \<Rightarrow> real list option \<Rightarrow> real option \<Rightarrow> real \<Rightarrow> real \<Rightarrow> int \<Rightarrow> int \<Rightarrow> Prepayment list
     \<Rightarrow> (error + Response) option" where
  "reschedule_with A officialSchedule principalOpt monthlyRate emi totalTenure paidEmis prepayments =
     (case startingOutstanding officialSchedule principalOpt monthlyRate emi paidEmis of
        Inl e \<Rightarrow> Some (Inl e)
      | Inr outstanding0 \<Rightarrow>
          (let prepayMap = build_prepayMap prepayments;
               (outstanding, lg) = simulate monthlyRate emi prepayMap paidEmis outstanding0
           in case keepEMI_with A emi outstanding monthlyRate of
                None \<Rightarrow> None
              | Some keep \<Rightarrow>
                  (case reduceEMI_with A outstanding monthlyRate totalTenure
                          (simulateTargetMonth prepayMap paidEmis) of
                     None \<Rightarrow> None
                   | Some (Inl e) \<Rightarrow> Some (Inl e)
                   | Some (Inr reduce) \<Rightarrow>
                       Some (Inr \<lparr>simLog = lg, outstandingAfterPrepayments = outstanding,
                                  keepEMI = keep, reduceEMI = reduce\<rparr>))))"

section \<open>Predicates used in the statements\<close>

text \<open>
  Along a schedule that started from the balance \<open>prev\<close>: every row has
  \<open>remaining \<ge> 0\<close> and \<open>remaining = round(previous remaining - principal)\<close>, the previous
  remaining of the first row being \<open>prev\<close>.
\<close>

fun remaining_chain :: "jsnum \<Rightarrow> ScheduleRow list \<Rightarrow> bool" where
  "remaining_chain prev [] = True"
| "remaining_chain prev (row # rows) =
     (js_le (Num 0) (remaining row) \<and>
      remaining row = round_js (js_sub prev (principal row)) \<and>
      remaining_chain (remaining row) rows)"

text \<open>The \<open>remaining\<close> column never increases from a row to a later one.\<close>

definition remaining_nonincreasing :: "ScheduleRow list \<Rightarrow> bool" where
  "remaining_nonincreasing rows = sorted_wrt (\<lambda>x y. js_le (remaining y) (remaining x)) rows"

text \<open>A number of whole currency units.\<close>

definition integral :: "real \<Rightarrow> bool" where
  "integral x = (of_int \<lfloor>x\<rfloor> = x)"

fun js_integer :: "jsnum \<Rightarrow> bool" where
  "js_integer (Num x) = integral x"
| "js_integer a = False"

text \<open>
  The interest of an EMI entry and the outstanding after an entry of \<^verbatim>\<open>simLog\<close> are
  whole units.
\<close>

fun event_rounded :: "SimEvent \<Rightarrow> bool" where
  "event_rounded (EMI m emiPaid i p rem) = (integral i \<and> integral rem)"
| "event_rounded (PREPAY m prepay before after) = integral after"
| "event_rounded (PREPAY_AFTER_ALREADY_PAID_EMI m prepay before after) = integral after"

text \<open>The month of an entry of \<^verbatim>\<open>simLog\<close> that records a prepayment.\<close>

fun prepay_month :: "SimEvent \<Rightarrow> int option" where
  "prepay_month (EMI m emiPaid i p rem) = None"
| "prepay_month (PREPAY m prepay before after) = Some m"
| "prepay_month (PREPAY_AFTER_ALREADY_PAID_EMI m prepay before after) = Some m"

section \<open>A finite cap: the loop returns\<close>

lemma amortize_loop_finite:
  "amortize_loop r e (enat n) b m out = Some (amortize_steps r e (n - m) b m out)"
proof (induction "n - m" arbitrary: m b out)
  case 0
  then have "\<not> m < n" by simp
  then show ?case using 0
    by (subst amortize_loop.simps) simp
next
  case (Suc k)
  then have lt: "m < n" and k: "k = n - (m + 1)" by simp_all
  have S: "n - m = Suc k" using Suc by simp
  show ?case
    apply (subst amortize_loop.simps)
    apply (simp only: S amortize_steps.simps)
    using lt Suc(1)[OF k] k
    apply (simp add: Let_def)
    done
qed

lemma amortizeUntilPaid_finite:
  "amortizeUntilPaid b r e (enat n) = Some (amortize_steps r e n b 0 [])"
  by (simp add: amortizeUntilPaid_def amortize_loop_finite)

lemma amortize_steps_acc:
  "amortize_steps r e k b m out =
     (case amortize_steps r e k b 0 [] of
        Inl x \<Rightarrow> Inl x
      | Inr rows \<Rightarrow> Inr (out @ map (\<lambda>x. x\<lparr>month := month x + m\<rparr>) rows))"
proof (induction k arbitrary: b m out)
  case 0
  show ?case by simp
next
  case (Suc k)
  show ?case
  proof (cases "js_gt b (Num 0) \<and> \<not> js_le (js_sub e (round_js (js_scale b r))) (Num 0)")
    case False
    then show ?thesis by (auto simp: Let_def)
  next
    case True
    define i where "i = round_js (js_scale b r)"
    define p where "p = (if js_gt (js_sub e i) b then b else js_sub e i)"
    define b' where "b' = round_js (js_sub b p)"
    define row where "row mm = \<lparr>month = mm, emi_paid = js_add i p, principal = p,
        interest = i, remaining = Math_max b' (Num 0)\<rparr>" for mm :: nat
    have L: "amortize_steps r e (Suc k) b m out = amortize_steps r e k b' (m + 1) (out @ [row (m + 1)])"
      using True by (simp add: Let_def i_def p_def b'_def row_def)
    have R: "amortize_steps r e (Suc k) b 0 [] = amortize_steps r e k b' 1 [row 1]"
      using True by (simp add: Let_def i_def p_def b'_def row_def)
    have A: "amortize_steps r e k b' (m + 1) (out @ [row (m + 1)]) =
        (case amortize_steps r e k b' 0 [] of
           Inl x \<Rightarrow> Inl x
         | Inr rows \<Rightarrow> Inr ((out @ [row (m + 1)]) @ map (\<lambda>x. x\<lparr>month := month x + (m + 1)\<rparr>) rows))"
      by (rule Suc.IH)
    have B: "amortize_steps r e k b' 1 [row 1] =
        (case amortize_steps r e k b' 0 [] of
           Inl x \<Rightarrow> Inl x
         | Inr rows \<Rightarrow> Inr ([row 1] @ map (\<lambda>x. x\<lparr>month := month x + 1\<rparr>) rows))"
      by (rule Suc.IH)
    show ?thesis
      unfolding L R A B by (simp add: row_def split: sum.splits)
  qed
qed

lemma amortize_steps_Suc:
  "amortize_steps r e (Suc k) b 0 [] =
     (if js_gt b (Num 0) then
        (let i = round_js (js_scale b r);
             p = js_sub e i
         in if js_le p (Num 0) then Inl EmiTooSmall
            else
              (let p' = (if js_gt p b then b else p);
                   b' = round_js (js_sub b p')
               in case amortize_steps r e k b' 0 [] of
                    Inl x \<Rightarrow> Inl x
                  | Inr rows \<Rightarrow>
                      Inr (\<lparr>month = 1, emi_paid = js_add i p', principal = p', interest = i,
                             remaining = Math_max b' (Num 0)\<rparr>
                           # map (\<lambda>x. x\<lparr>month := Suc (month x)\<rparr>) rows)))
      else Inr [])"
  by (simp add: Let_def amortize_steps_acc [where m = "Suc 0"] split: sum.splits)

lemma amortize_steps_length:
  "amortize_steps r e k b 0 [] = Inr rows \<Longrightarrow>
     length rows \<le> k \<and> map month rows = [1..<Suc (length rows)]"
proof (induction k arbitrary: b rows)
  case 0
  then show ?case by simp
next
  case (Suc k)
  show ?case
  proof (cases "js_gt b (Num 0)")
    case False
    with Suc.prems show ?thesis by simp
  next
    case True
    with Suc.prems obtain b' row rest where
      rest: "amortize_steps r e k b' 0 [] = Inr rest"
      and rows: "rows = row # map (\<lambda>x. x\<lparr>month := Suc (month x)\<rparr>) rest"
      and row: "month row = 1"
      unfolding amortize_steps_Suc
      by (auto simp: Let_def split: if_splits sum.splits)
    from Suc.IH[OF rest] have len: "length rest \<le> k" and m: "map month rest = [1..<Suc (length rest)]"
      by simp_all
    have "map month (map (\<lambda>x. x\<lparr>month := Suc (month x)\<rparr>) rest) = map Suc (map month rest)"
      by (simp add: comp_def)
    also have "\<dots> = [Suc 1..<Suc (Suc (length rest))]"
      unfolding m by (rule map_Suc_upt)
    finally have "map month rows = 1 # [Suc 1..<Suc (Suc (length rest))]"
      using row rows by simp
    also have "\<dots> = [1..<Suc (Suc (length rest))]"
      by (rule upt_conv_Cons [symmetric]) simp
    finally show ?thesis using len rows by simp
  qed
qed

lemma amortize_steps_nonpos:
  "b \<le> 0 \<Longrightarrow> amortize_steps r e k (Num b) m out = Inr out"
  by (cases k) simp_all

lemma amortize_steps_Suc_Num:
  assumes "0 < b"
    and "i = round_real (b * r)" and "p = e - i"
    and "c = (if p > b then b else p)" and "b' = round_real (b - c)"
  shows "amortize_steps r (Num e) (Suc k) (Num b) 0 [] =
     (if p \<le> 0 then Inl EmiTooSmall
      else case amortize_steps r (Num e) k (Num b') 0 [] of
             Inl x \<Rightarrow> Inl x
           | Inr rows \<Rightarrow>
               Inr (\<lparr>month = 1, emi_paid = Num (i + c), principal = Num c,
                      interest = Num i, remaining = Num (max b' 0)\<rparr>
                    # map (\<lambda>x. x\<lparr>month := Suc (month x)\<rparr>) rows))"
proof -
  from assms have s: "round_real (b * r) = i" "e - i = p"
    "(if b < p then b else p) = c" "round_real (b - c) = b'"
    by simp_all
  have i: "round_js (js_scale (Num b) r) = Num i"
    by (simp add: s)
  have p: "js_sub (Num e) (Num i) = Num p"
    by (simp add: js_sub_def s)
  have c: "(if js_gt (Num p) (Num b) then Num b else Num p) = Num c"
    using s(3) by auto
  have b': "round_js (js_sub (Num b) (Num c)) = Num b'"
    by (simp add: js_sub_def s)
  show ?thesis
    unfolding amortize_steps_Suc Let_def i p c b'
    using assms(1) by (simp split: sum.splits)
qed

section \<open>Claim C1: the iterations of amortizeUntilPaid\<close>

text \<open>
  C1. For a call \<^verbatim>\<open>amortizeUntilPaid(balance, monthlyRate, emi, maxMonths)\<close> on finite
  numbers with \<open>balance > 0\<close>: an iteration computes \<open>interest = round(balance \<times> monthlyRate)\<close>
  and \<open>principal = emi - interest\<close>; it throws "EMI too small to cover interest." when
  \<open>principal \<le> 0\<close>; otherwise it clips the principal to the balance, emits one row whose
  \<open>emi_paid\<close> is the interest plus the clipped principal and whose \<open>remaining\<close> is the new
  balance \<open>round(balance - principal)\<close>, and goes on with that balance and one iteration
  less, stopping at once when the new balance is \<open>\<le> 0\<close>. With cap 0 there is no
  iteration. With a finite cap \<open>n\<close> the call returns, and a returned schedule has at most
  \<open>n\<close> rows, numbered 1, 2, ... in order.
\<close>

theorem amortizeUntilPaid_iteration:
  "0 < b \<Longrightarrow>
   (let interest0 = round_real (b * r);
        principal0 = e - interest0;
        clipped = (if principal0 > b then b else principal0);
        b' = round_real (b - clipped);
        row = \<lparr>month = 1, emi_paid = Num (interest0 + clipped), principal = Num clipped,
                interest = Num interest0, remaining = Num (max b' 0)\<rparr>
    in amortizeUntilPaid (Num b) r (Num e) 0 = Some (Inr [])
     \<and> (principal0 \<le> 0 \<longrightarrow>
          amortizeUntilPaid (Num b) r (Num e) (enat (Suc n)) = Some (Inl EmiTooSmall))
     \<and> (0 < principal0 \<longrightarrow>
          amortizeUntilPaid (Num b) r (Num e) (enat (Suc n)) =
            (if b' \<le> 0 then Some (Inr [row])
             else case amortizeUntilPaid (Num b') r (Num e) (enat n) of
                    Some (Inr rows) \<Rightarrow> Some (Inr (row # map (\<lambda>x. x\<lparr>month := Suc (month x)\<rparr>) rows))
                  | other \<Rightarrow> other))
     \<and> (\<exists>res. amortizeUntilPaid (Num b) r (Num e) (enat n) = Some res)
     \<and> (\<forall>rows. amortizeUntilPaid (Num b) r (Num e) (enat n) = Some (Inr rows) \<longrightarrow>
            length rows \<le> n \<and> map month rows = [1..<Suc (length rows)]))"
proof -
  assume b: "0 < b"
  have zero: "amortizeUntilPaid (Num b) r (Num e) 0 = Some (Inr [])"
    using amortizeUntilPaid_finite [of "Num b" r "Num e" 0] by (simp add: zero_enat_def)
  have len: "\<forall>rows. amortizeUntilPaid (Num b) r (Num e) (enat n) = Some (Inr rows) \<longrightarrow>
            length rows \<le> n \<and> map month rows = [1..<Suc (length rows)]"
    by (simp add: amortizeUntilPaid_finite amortize_steps_length)
  have steps: "amortizeUntilPaid (Num b) r (Num e) (enat (Suc n)) =
      Some (amortize_steps r (Num e) (Suc n) (Num b) 0 [])" for n
    by (rule amortizeUntilPaid_finite)
  show ?thesis
    unfolding Let_def
    apply (intro conjI impI)
        apply (rule zero)
       apply (simp add: steps amortize_steps_Suc_Num [OF b refl refl refl refl] del: amortize_steps.simps)
      apply (simp add: steps amortize_steps_Suc_Num [OF b refl refl refl refl] amortizeUntilPaid_finite
        amortize_steps_nonpos split: sum.splits del: amortize_steps.simps)
     apply (simp add: amortizeUntilPaid_finite)
    apply (rule len)
    done
qed


theorem amortizeUntilPaid_iteration_witness:
  "(0::real) < 1000 \<and> 0 < 400 - round_real (1000 * (1 / 8)) \<and>
   amortizeUntilPaid (Num 1000) (1 / 8) (Num 400) (enat (Suc 2)) =
     Some (Inr [\<lparr>month = 1, emi_paid = Num 400, principal = Num 275, interest = Num 125, remaining = Num 725\<rparr>,
                \<lparr>month = 2, emi_paid = Num 400, principal = Num 309, interest = Num 91, remaining = Num 416\<rparr>,
                \<lparr>month = 3, emi_paid = Num 400, principal = Num 348, interest = Num 52, remaining = Num 68\<rparr>]) \<and>
   100 - round_real (1000 * (1 / 8)) \<le> 0 \<and>
   amortizeUntilPaid (Num 1000) (1 / 8) (Num 100) (enat (Suc 2)) = Some (Inl EmiTooSmall)"
  using amortizeUntilPaid_iteration [of 1000 "1 / 8" 400 2]
    amortizeUntilPaid_iteration [of 1000 "1 / 8" 100 2]
  by (simp add: Let_def round_real_def amortizeUntilPaid_finite numeral_2_eq_2 js_sub_def)

section \<open>Rounding and the remaining balance\<close>

lemma round_real_integral [simp]: "integral (round_real x)"
  by (simp add: integral_def round_real_def)

lemma integral_of_int [simp]: "integral (of_int z)"
  by (simp add: integral_def)

lemma integralE: "integral x \<Longrightarrow> (\<And>z. x = of_int z \<Longrightarrow> P) \<Longrightarrow> P"
  by (metis integral_def)

lemma round_real_nonneg: "0 \<le> x \<Longrightarrow> 0 \<le> round_real x"
  by (simp add: round_real_def)

lemma round_real_le_integral:
  assumes "integral b" and "0 \<le> c"
  shows "round_real (b - c) \<le> b"
proof -
  from assms(1) obtain z where z: "b = of_int z" by (rule integralE)
  have "\<lfloor>of_int z - c + 1 / 2\<rfloor> \<le> z"
    using assms(2) by linarith
  then show ?thesis
    unfolding round_real_def z by (metis of_int_le_iff)
qed

lemma remaining_chain_shift:
  "remaining_chain prev (map (\<lambda>x. x\<lparr>month := f (month x)\<rparr>) rows) = remaining_chain prev rows"
  by (induction rows arbitrary: prev) simp_all

lemma amortize_steps_empty:
  "amortize_steps r e (Suc k) b 0 [] = Inr [] \<Longrightarrow> \<not> js_gt b (Num 0)"
  unfolding amortize_steps_Suc
  by (auto simp: Let_def split: if_splits sum.splits)


lemma amortize_steps_remaining:
  "amortize_steps r (Num e) k (Num b) 0 [] = Inr rows \<Longrightarrow>
     remaining_chain (Num b) rows \<and> remaining_nonincreasing rows \<and>
     (\<forall>row\<in>set rows. \<exists>x. remaining row = Num x \<and> 0 \<le> x \<and> integral x \<and> (integral b \<longrightarrow> x \<le> b)) \<and>
     (rows \<noteq> [] \<longrightarrow> length rows < k \<longrightarrow> remaining (last rows) = Num 0)"
proof (induction k arbitrary: b rows)
  case 0
  then show ?case by (simp add: remaining_nonincreasing_def)
next
  case (Suc k)
  show ?case
  proof (cases "0 < b")
    case False
    with Suc.prems have "rows = []"
      by (simp add: amortize_steps_nonpos del: amortize_steps.simps)
    then show ?thesis by (simp add: remaining_nonincreasing_def)
  next
    case True
    define i where "i = round_real (b * r)"
    define p where "p = e - i"
    define c where "c = (if p > b then b else p)"
    define b' where "b' = round_real (b - c)"
    define row where "row = \<lparr>month = 1, emi_paid = Num (i + c), principal = Num c,
        interest = Num i, remaining = Num (max b' 0)\<rparr>"
    note unfold = amortize_steps_Suc_Num [OF True i_def p_def c_def b'_def, of k]
    from Suc.prems have p: "0 < p"
      unfolding unfold by (auto split: if_splits)
    from Suc.prems p obtain rest where
      rest: "amortize_steps r (Num e) k (Num b') 0 [] = Inr rest"
      and rows: "rows = row # map (\<lambda>x. x\<lparr>month := Suc (month x)\<rparr>) rest"
      unfolding unfold row_def by (auto split: if_splits sum.splits)
    have c: "0 < c" "c \<le> b"
      using p True by (auto simp: c_def)
    have b'0: "0 \<le> b'"
      unfolding b'_def using c by (intro round_real_nonneg) simp
    have b'int: "integral b'"
      by (simp add: b'_def)
    have b'le: "integral b \<Longrightarrow> b' \<le> b"
      unfolding b'_def using c by (intro round_real_le_integral) simp_all
    have rem: "remaining row = Num b'" and pr: "principal row = Num c"
      using b'0 by (simp_all add: row_def max_def)
    from Suc.IH [OF rest] have
      chain: "remaining_chain (Num b') rest"
      and mono: "remaining_nonincreasing rest"
      and bound: "\<forall>x\<in>set rest. \<exists>y. remaining x = Num y \<and> 0 \<le> y \<and> integral y \<and> y \<le> b'"
      and final: "rest \<noteq> [] \<longrightarrow> length rest < k \<longrightarrow> remaining (last rest) = Num 0"
      using b'int by auto
    have 1: "remaining_chain (Num b) rows"
      unfolding rows using chain rem pr b'0
      by (simp add: remaining_chain_shift js_sub_def b'_def)
    have 2: "remaining_nonincreasing rows"
      unfolding rows remaining_nonincreasing_def
      using mono bound rem
      by (auto simp: remaining_nonincreasing_def sorted_wrt_map)
    have 3: "\<forall>x\<in>set rows. \<exists>y. remaining x = Num y \<and> 0 \<le> y \<and> integral y \<and> (integral b \<longrightarrow> y \<le> b)"
    proof
      fix x assume "x \<in> set rows"
      then consider "x = row" | z where "z \<in> set rest" "remaining x = remaining z"
        unfolding rows by auto
      then show "\<exists>y. remaining x = Num y \<and> 0 \<le> y \<and> integral y \<and> (integral b \<longrightarrow> y \<le> b)"
      proof cases
        case 1
        then show ?thesis using rem b'0 b'int b'le by auto
      next
        case 2
        with bound obtain y where "remaining x = Num y" "0 \<le> y" "integral y" "y \<le> b'"
          by force
        then show ?thesis using b'le by force
      qed
    qed
    have 4: "rows \<noteq> [] \<longrightarrow> length rows < Suc k \<longrightarrow> remaining (last rows) = Num 0"
    proof (intro impI)
      assume len: "length rows < Suc k"
      show "remaining (last rows) = Num 0"
      proof (cases "rest = []")
        case True
        from len obtain k' where k': "k = Suc k'"
          unfolding rows by (cases k) simp_all
        from rest True have "\<not> js_gt (Num b') (Num 0)"
          unfolding k' by (intro amortize_steps_empty) simp
        with b'0 have "b' = 0" by simp
        then show ?thesis using True rem by (simp add: rows)
      next
        case False
        with final len have "remaining (last rest) = Num 0"
          by (simp add: rows)
        then show ?thesis using False by (simp add: rows last_map)
      qed
    qed
    from 1 2 3 4 show ?thesis by blast
  qed
qed


section \<open>Claim C8: the remaining column\<close>

text \<open>
  C8. For every schedule that \<^verbatim>\<open>amortizeUntilPaid\<close> returns on finite numbers (so in
  particular for the valid inputs \<open>balance > 0\<close>, \<open>monthlyRate \<ge> 0\<close>, \<open>emi > 0\<close>) with
  an iteration cap \<open>n\<close>: every row has \<open>remaining \<ge> 0\<close> and
  \<open>remaining = round(previous remaining - principal)\<close>, where the previous remaining of
  the first row is the starting balance; the remaining column never increases; and the
  last row's remaining is exactly 0 unless the schedule has \<open>n\<close> rows (the cap was
  reached).
\<close>

theorem amortizeUntilPaid_remaining:
  "amortizeUntilPaid (Num b) r (Num e) (enat n) = Some (Inr rows) \<Longrightarrow>
     remaining_chain (Num b) rows \<and> remaining_nonincreasing rows \<and>
     (rows \<noteq> [] \<longrightarrow> length rows < n \<longrightarrow> remaining (last rows) = Num 0)"
  using amortize_steps_remaining [of r e n b rows]
  by (simp add: amortizeUntilPaid_finite)

theorem amortizeUntilPaid_remaining_witness:
  "amortizeUntilPaid (Num 1000) (1 / 8) (Num 400) (enat 10) =
     Some (Inr [\<lparr>month = 1, emi_paid = Num 400, principal = Num 275, interest = Num 125, remaining = Num 725\<rparr>,
                \<lparr>month = 2, emi_paid = Num 400, principal = Num 309, interest = Num 91, remaining = Num 416\<rparr>,
                \<lparr>month = 3, emi_paid = Num 400, principal = Num 348, interest = Num 52, remaining = Num 68\<rparr>,
                \<lparr>month = 4, emi_paid = Num 77, principal = Num 68, interest = Num 9, remaining = Num 0\<rparr>]) \<and>
   remaining_chain (Num 1000)
     [\<lparr>month = 1, emi_paid = Num 400, principal = Num 275, interest = Num 125, remaining = Num 725\<rparr>,
      \<lparr>month = 2, emi_paid = Num 400, principal = Num 309, interest = Num 91, remaining = Num 416\<rparr>,
      \<lparr>month = 3, emi_paid = Num 400, principal = Num 348, interest = Num 52, remaining = Num 68\<rparr>,
      \<lparr>month = 4, emi_paid = Num 77, principal = Num 68, interest = Num 9, remaining = Num 0\<rparr>] \<and>
   remaining_nonincreasing
     [\<lparr>month = 1, emi_paid = Num 400, principal = Num 275, interest = Num 125, remaining = Num 725\<rparr>,
      \<lparr>month = 2, emi_paid = Num 400, principal = Num 309, interest = Num 91, remaining = Num 416\<rparr>,
      \<lparr>month = 3, emi_paid = Num 400, principal = Num 348, interest = Num 52, remaining = Num 68\<rparr>,
      \<lparr>month = 4, emi_paid = Num 77, principal = Num 68, interest = Num 9, remaining = Num 0\<rparr>] \<and>
   (4::nat) < 10 \<and>
   remaining (last
     [\<lparr>month = 1, emi_paid = Num 400, principal = Num 275, interest = Num 125, remaining = Num 725\<rparr>,
      \<lparr>month = 2, emi_paid = Num 400, principal = Num 309, interest = Num 91, remaining = Num 416\<rparr>,
      \<lparr>month = 3, emi_paid = Num 400, principal = Num 348, interest = Num 52, remaining = Num 68\<rparr>,
      \<lparr>month = 4, emi_paid = Num 77, principal = Num 68, interest = Num 9, remaining = Num 0\<rparr>]) = Num 0"
proof -
  have run: "amortizeUntilPaid (Num 1000) (1 / 8) (Num 400) (enat 10) =
     Some (Inr [\<lparr>month = 1, emi_paid = Num 400, principal = Num 275, interest = Num 125, remaining = Num 725\<rparr>,
                \<lparr>month = 2, emi_paid = Num 400, principal = Num 309, interest = Num 91, remaining = Num 416\<rparr>,
                \<lparr>month = 3, emi_paid = Num 400, principal = Num 348, interest = Num 52, remaining = Num 68\<rparr>,
                \<lparr>month = 4, emi_paid = Num 77, principal = Num 68, interest = Num 9, remaining = Num 0\<rparr>])"
    by (simp add: amortizeUntilPaid_finite eval_nat_numeral Let_def js_sub_def round_real_def)
  have final: "(4::nat) < 10" "remaining (last
     [\<lparr>month = 1, emi_paid = Num 400, principal = Num 275, interest = Num 125, remaining = Num 725\<rparr>,
      \<lparr>month = 2, emi_paid = Num 400, principal = Num 309, interest = Num 91, remaining = Num 416\<rparr>,
      \<lparr>month = 3, emi_paid = Num 400, principal = Num 348, interest = Num 52, remaining = Num 68\<rparr>,
      \<lparr>month = 4, emi_paid = Num 77, principal = Num 68, interest = Num 9, remaining = Num 0\<rparr>]) = Num 0"
    by simp_all
  from amortizeUntilPaid_remaining [OF run] run final show ?thesis
    by blast
qed

section \<open>Whole units\<close>

lemma integral_zero [simp]: "integral 0"
  by (simp add: integral_def)

lemma integral_add: "integral x \<Longrightarrow> integral y \<Longrightarrow> integral (x + y)"
  by (metis integralE integral_of_int of_int_add)

lemma integral_diff: "integral x \<Longrightarrow> integral y \<Longrightarrow> integral (x - y)"
  by (metis integralE integral_of_int of_int_diff)

lemma integral_max: "integral x \<Longrightarrow> integral y \<Longrightarrow> integral (max x y)"
  by (simp add: max_def)

lemma amortize_steps_integer:
  "amortize_steps r (Num e) k (Num b) 0 [] = Inr rows \<Longrightarrow>
     (\<forall>row\<in>set rows. js_integer (interest row) \<and> js_integer (remaining row)) \<and>
     (integral b \<and> integral e \<longrightarrow>
        (\<forall>row\<in>set rows. js_integer (principal row) \<and> js_integer (emi_paid row)))"
proof (induction k arbitrary: b rows)
  case 0
  then show ?case by simp
next
  case (Suc k)
  show ?case
  proof (cases "0 < b")
    case False
    with Suc.prems have "rows = []"
      by (simp add: amortize_steps_nonpos del: amortize_steps.simps)
    then show ?thesis by simp
  next
    case True
    define i where "i = round_real (b * r)"
    define p where "p = e - i"
    define c where "c = (if p > b then b else p)"
    define b' where "b' = round_real (b - c)"
    define row where "row = \<lparr>month = 1, emi_paid = Num (i + c), principal = Num c,
        interest = Num i, remaining = Num (max b' 0)\<rparr>"
    note unfold = amortize_steps_Suc_Num [OF True i_def p_def c_def b'_def, of k]
    from Suc.prems obtain rest where
      rest: "amortize_steps r (Num e) k (Num b') 0 [] = Inr rest"
      and rows: "rows = row # map (\<lambda>x. x\<lparr>month := Suc (month x)\<rparr>) rest"
      unfolding unfold row_def by (auto split: if_splits sum.splits)
    have b'int: "integral b'" and iint: "integral i"
      by (simp_all add: b'_def i_def)
    have cint: "integral c" if "integral b" "integral e"
      using that iint by (simp add: c_def p_def integral_diff)
    from Suc.IH [OF rest] b'int have
      A: "\<forall>x\<in>set rest. js_integer (interest x) \<and> js_integer (remaining x)"
      and B: "integral e \<longrightarrow> (\<forall>x\<in>set rest. js_integer (principal x) \<and> js_integer (emi_paid x))"
      by auto
    have 1: "\<forall>x\<in>set rows. js_integer (interest x) \<and> js_integer (remaining x)"
      unfolding rows using A iint b'int by (auto simp: row_def integral_max)
    have 2: "\<forall>x\<in>set rows. js_integer (principal x) \<and> js_integer (emi_paid x)"
      if "integral b" "integral e"
      unfolding rows using B that cint [OF that] iint
      by (auto simp: row_def integral_add)
    from 1 2 show ?thesis by blast
  qed
qed

lemma emi_step_rounded:
  "emi_step r e m out = (out', ev) \<Longrightarrow> integral out' \<and> event_rounded ev"
  by (auto simp: emi_step_def Let_def)

lemma apply_prepay_integral [simp]: "integral (apply_prepay out prepay)"
  by (simp add: apply_prepay_def integral_max)

declare simulate_loop.simps [simp del]

lemma simulate_loop_done:
  "\<not> cm < t \<Longrightarrow> simulate_loop r e pm t cm out lg = (out, lg)"
  by (subst simulate_loop.simps) simp

lemma simulate_loop_step:
  "cm < t \<Longrightarrow> emi_step r e (cm + 1) out = (o1, ev) \<Longrightarrow>
   simulate_loop r e pm t cm out lg =
     (case prepay_at pm (cm + 1) of
        Some prepay \<Rightarrow>
          simulate_loop r e pm t (cm + 1) (apply_prepay o1 prepay)
            (lg @ [ev, PREPAY (cm + 1) prepay o1 (apply_prepay o1 prepay)])
      | None \<Rightarrow> simulate_loop r e pm t (cm + 1) o1 (lg @ [ev]))"
  by (subst simulate_loop.simps) (simp add: Let_def split: option.splits)

lemma simulate_loop_rounded:
  "simulate_loop r e pm t cm out lg = (out', lg') \<Longrightarrow>
     \<forall>ev\<in>set lg. event_rounded ev \<Longrightarrow>
     \<forall>ev\<in>set lg'. event_rounded ev"
proof (induction "nat (t - cm)" arbitrary: cm out lg)
  case 0
  then have "\<not> cm < t" by simp
  with 0 show ?case by (simp add: simulate_loop_done)
next
  case (Suc k)
  then have lt: "cm < t" and k: "k = nat (t - (cm + 1))" by simp_all
  obtain o1 ev where step: "emi_step r e (cm + 1) out = (o1, ev)"
    by (cases "emi_step r e (cm + 1) out")
  then have ev: "event_rounded ev" by (simp add: emi_step_rounded)
  show ?case
  proof (cases "prepay_at pm (cm + 1)")
    case None
    with Suc.prems(1) have run: "simulate_loop r e pm t (cm + 1) o1 (lg @ [ev]) = (out', lg')"
      by (simp add: simulate_loop_step [OF lt step])
    show ?thesis
      by (rule Suc.hyps(1) [OF k run]) (use Suc.prems(2) ev in simp)
  next
    case (Some prepay)
    with Suc.prems(1) have run: "simulate_loop r e pm t (cm + 1) (apply_prepay o1 prepay)
        (lg @ [ev, PREPAY (cm + 1) prepay o1 (apply_prepay o1 prepay)]) = (out', lg')"
      by (simp add: simulate_loop_step [OF lt step])
    show ?thesis
      by (rule Suc.hyps(1) [OF k run]) (use Suc.prems(2) ev in simp)
  qed
qed

lemma simulate_rounded:
  "\<forall>ev\<in>set (snd (simulate r e pm paidEmis out0)). event_rounded ev"
proof -
  obtain out lg where run:
    "simulate_loop r e pm (simulateTargetMonth pm paidEmis) paidEmis out0 [] = (out, lg)"
    by (cases "simulate_loop r e pm (simulateTargetMonth pm paidEmis) paidEmis out0 []")
  from simulate_loop_rounded [OF run] have "\<forall>ev\<in>set lg. event_rounded ev"
    by simp
  then show ?thesis
    by (simp add: simulate_def run Let_def split: option.splits)
qed

section \<open>Claim C9: which values are whole units\<close>

text \<open>
  C9 says that every currency value the engine produces is an integer, in particular the
  four number fields of every schedule row, also for a non-integer principal, EMI or
  prepayment. The code rounds the interest and the balance only: \<open>principal\<close> is
  \<^verbatim>\<open>emi - interest\<close> (or the balance it is clipped to) and \<open>emi_paid\<close> is
  \<^verbatim>\<open>interest + principal\<close>, neither passed to \<^verbatim>\<open>round\<close>. With balance 1000, monthly
  rate 1/8 and EMI 400.5 the first row has principal 275.5 and emi_paid 400.5.
\<close>

theorem unrounded_principal_counterexample:
  "(0::real) < 1000 \<and> (0::real) \<le> 1 / 8 \<and> (0::real) < 801 / 2 \<and>
   amortizeUntilPaid (Num 1000) (1 / 8) (Num (801 / 2)) (enat 1) =
     Some (Inr [\<lparr>month = 1, emi_paid = Num (801 / 2), principal = Num (551 / 2),
                  interest = Num 125, remaining = Num 725\<rparr>]) \<and>
   \<not> js_integer (principal \<lparr>month = 1, emi_paid = Num (801 / 2), principal = Num (551 / 2),
                  interest = Num 125, remaining = Num 725\<rparr>) \<and>
   \<not> js_integer (emi_paid \<lparr>month = 1, emi_paid = Num (801 / 2), principal = Num (551 / 2),
                  interest = Num 125, remaining = Num 725\<rparr>)"
  by (simp add: amortizeUntilPaid_finite Let_def js_sub_def round_real_def integral_def)


text \<open>
  C9 as amended. For finite inputs, in every row of a schedule returned by
  \<^verbatim>\<open>amortizeUntilPaid\<close> the \<open>interest\<close> and the \<open>remaining\<close> are integers, and so are the
  \<open>principal\<close> and the \<open>emi_paid\<close> when the starting balance and the EMI are integers. In
  the forward simulation of the handler the interest of every EMI entry and the outstanding
  balance after every EMI and after every prepayment (of either kind) are integers, whatever
  the starting outstanding, the EMI and the prepayment amounts.
\<close>

theorem rounded_currency_values:
  "(amortizeUntilPaid (Num b) r (Num e) (enat n) = Some (Inr rows) \<longrightarrow>
      (\<forall>row\<in>set rows. js_integer (interest row) \<and> js_integer (remaining row)) \<and>
      (integral b \<and> integral e \<longrightarrow>
         (\<forall>row\<in>set rows. js_integer (principal row) \<and> js_integer (emi_paid row)))) \<and>
   (\<forall>ev\<in>set (snd (simulate r' e' prepayMap paidEmis out0)). event_rounded ev)"
  using amortize_steps_integer [of r e n b rows] simulate_rounded [of r' e' prepayMap paidEmis out0]
  by (simp add: amortizeUntilPaid_finite)

theorem rounded_currency_values_witness:
  "amortizeUntilPaid (Num 1000) (1 / 8) (Num 400) (enat 10) =
     Some (Inr [\<lparr>month = 1, emi_paid = Num 400, principal = Num 275, interest = Num 125, remaining = Num 725\<rparr>,
                \<lparr>month = 2, emi_paid = Num 400, principal = Num 309, interest = Num 91, remaining = Num 416\<rparr>,
                \<lparr>month = 3, emi_paid = Num 400, principal = Num 348, interest = Num 52, remaining = Num 68\<rparr>,
                \<lparr>month = 4, emi_paid = Num 77, principal = Num 68, interest = Num 9, remaining = Num 0\<rparr>]) \<and>
   integral 1000 \<and> integral 400 \<and>
   list_all (\<lambda>row. js_integer (interest row) \<and> js_integer (remaining row) \<and>
                    js_integer (principal row) \<and> js_integer (emi_paid row))
     [\<lparr>month = 1, emi_paid = Num 400, principal = Num 275, interest = Num 125, remaining = Num 725\<rparr>,
      \<lparr>month = 2, emi_paid = Num 400, principal = Num 309, interest = Num 91, remaining = Num 416\<rparr>,
      \<lparr>month = 3, emi_paid = Num 400, principal = Num 348, interest = Num 52, remaining = Num 68\<rparr>,
      \<lparr>month = 4, emi_paid = Num 77, principal = Num 68, interest = Num 9, remaining = Num 0\<rparr>] \<and>
   snd (simulate (1 / 8) (801 / 2) [(2, Some (201 / 2))] 1 1000) =
     [EMI 2 (801 / 2) 125 (551 / 2) 725, PREPAY 2 (201 / 2) 725 625] \<and>
   list_all event_rounded (snd (simulate (1 / 8) (801 / 2) [(2, Some (201 / 2))] 1 1000))"
proof -
  have run: "amortizeUntilPaid (Num 1000) (1 / 8) (Num 400) (enat 10) =
     Some (Inr [\<lparr>month = 1, emi_paid = Num 400, principal = Num 275, interest = Num 125, remaining = Num 725\<rparr>,
                \<lparr>month = 2, emi_paid = Num 400, principal = Num 309, interest = Num 91, remaining = Num 416\<rparr>,
                \<lparr>month = 3, emi_paid = Num 400, principal = Num 348, interest = Num 52, remaining = Num 68\<rparr>,
                \<lparr>month = 4, emi_paid = Num 77, principal = Num 68, interest = Num 9, remaining = Num 0\<rparr>])"
    by (simp add: amortizeUntilPaid_finite eval_nat_numeral Let_def js_sub_def round_real_def)
  have ints: "integral 1000" "integral 400"
    by (simp_all add: integral_def)
  have sim: "snd (simulate (1 / 8) (801 / 2) [(2, Some (201 / 2))] 1 1000) =
     [EMI 2 (801 / 2) 125 (551 / 2) 725, PREPAY 2 (201 / 2) 725 625]"
    by (simp add: simulate_def simulateTargetMonth_def lastPrepayMonth_def simulate_loop.simps
        prepay_at_def emi_step_def apply_prepay_def round_real_def Let_def)
  from rounded_currency_values [of 1000 "1 / 8" 400 10 _ "1 / 8" "801 / 2" "[(2, Some (201 / 2))]" 1 1000]
    run ints sim show ?thesis
    by (simp add: list_all_iff)
qed

section \<open>Claim C3: the EMI step of the forward simulation\<close>

text \<open>
  C3 says that an EMI step of the handler's forward simulation follows the same
  interest/principal split, clipping and fatal-error rule as a step of
  \<^verbatim>\<open>amortizeUntilPaid\<close>, so that it throws whenever \<open>principal \<le> 0\<close>. The loop of the
  handler has no such test (nor has the loop that replays the paid EMIs): with an
  outstanding of 100000, an annual rate of 12 and an EMI of 900 the interest is 1000, the
  step logs a principal of -100 and goes on with an outstanding of 100100, where
  \<^verbatim>\<open>amortizeUntilPaid\<close> throws.
\<close>

theorem simulation_step_no_fatal_error_counterexample:
  "900 - round_real (100000 * monthlyRate_of 12) \<le> 0 \<and>
   amortizeUntilPaid (Num 100000) (monthlyRate_of 12) (Num 900) (enat 1) = Some (Inl EmiTooSmall) \<and>
   emi_step (monthlyRate_of 12) 900 5 100000 = (100100, EMI 5 900 1000 (- 100) 100100) \<and>
   simulate_loop (monthlyRate_of 12) 900 [] 5 4 100000 [] = (100100, [EMI 5 900 1000 (- 100) 100100])"
  by (simp add: amortizeUntilPaid_finite Let_def js_sub_def round_real_def monthlyRate_of_def
      emi_step_def simulate_loop.simps prepay_at_def)

text \<open>
  C3 as amended. For an outstanding \<open>> 0\<close>, an EMI step of the forward simulation computes
  \<open>interest = round(outstanding \<times> monthlyRate)\<close> and \<open>principal = emi - interest\<close> clipped
  to the outstanding, logs them with \<open>emi_paid = interest + principal\<close>, and goes on with
  \<open>round(outstanding - principal)\<close>. When \<open>emi - interest > 0\<close> these are the fields of the
  row of a single \<^verbatim>\<open>amortizeUntilPaid\<close> step on the same balance, rate and EMI. When
  \<open>emi - interest \<le> 0\<close> the simulation step does the same computation and raises nothing,
  where \<^verbatim>\<open>amortizeUntilPaid\<close> throws.
\<close>

theorem simulation_step_matches_amortize:
  "0 < out \<Longrightarrow>
   (let i = round_real (out * r);
        p = (if emi - i > out then out else emi - i);
        out' = round_real (out - p)
    in emi_step r emi m out = (out', EMI m (i + p) i p out') \<and>
       (0 < emi - i \<longrightarrow>
          amortizeUntilPaid (Num out) r (Num emi) (enat 1) =
            Some (Inr [\<lparr>month = 1, emi_paid = Num (i + p), principal = Num p,
                         interest = Num i, remaining = Num out'\<rparr>])) \<and>
       (emi - i \<le> 0 \<longrightarrow>
          amortizeUntilPaid (Num out) r (Num emi) (enat 1) = Some (Inl EmiTooSmall)))"
proof -
  assume out: "0 < out"
  define i where "i = round_real (out * r)"
  define p where "p = (if emi - i > out then out else emi - i)"
  define out' where "out' = round_real (out - p)"
  have step: "emi_step r emi m out = (out', EMI m (i + p) i p out')"
    by (simp add: emi_step_def Let_def i_def p_def out'_def)
  have unfold: "amortize_steps r (Num emi) (Suc 0) (Num out) 0 [] =
      (if emi - i \<le> 0 then Inl EmiTooSmall
       else Inr [\<lparr>month = 1, emi_paid = Num (i + p), principal = Num p,
                   interest = Num i, remaining = Num (max out' 0)\<rparr>])"
    using amortize_steps_Suc_Num [OF out i_def refl p_def out'_def, of 0]
    by (simp del: amortize_steps.simps(2))
  have nonneg: "0 \<le> out'" if "0 < emi - i"
    unfolding out'_def using that out by (intro round_real_nonneg) (simp add: p_def)
  have ok: "amortizeUntilPaid (Num out) r (Num emi) (enat 1) =
      Some (Inr [\<lparr>month = 1, emi_paid = Num (i + p), principal = Num p,
                   interest = Num i, remaining = Num out'\<rparr>])" if "0 < emi - i"
    using that nonneg [OF that]
    by (simp add: amortizeUntilPaid_finite unfold max_def del: amortize_steps.simps(2))
  have err: "amortizeUntilPaid (Num out) r (Num emi) (enat 1) = Some (Inl EmiTooSmall)"
    if "emi - i \<le> 0"
    using that by (simp add: amortizeUntilPaid_finite unfold del: amortize_steps.simps(2))
  show ?thesis
    unfolding Let_def i_def [symmetric] p_def [symmetric] out'_def [symmetric]
    using step ok err by blast
qed

theorem simulation_step_matches_amortize_witness:
  "(0::real) < 100000 \<and> 0 < 2000 - round_real (100000 * monthlyRate_of 12) \<and>
   emi_step (monthlyRate_of 12) 2000 5 100000 = (99000, EMI 5 2000 1000 1000 99000) \<and>
   amortizeUntilPaid (Num 100000) (monthlyRate_of 12) (Num 2000) (enat 1) =
     Some (Inr [\<lparr>month = 1, emi_paid = Num 2000, principal = Num 1000,
                  interest = Num 1000, remaining = Num 99000\<rparr>]) \<and>
   900 - round_real (100000 * monthlyRate_of 12) \<le> 0 \<and>
   emi_step (monthlyRate_of 12) 900 5 100000 = (100100, EMI 5 900 1000 (- 100) 100100)"
  using simulation_step_matches_amortize [of 100000 "monthlyRate_of 12" 2000 5]
    simulation_step_matches_amortize [of 100000 "monthlyRate_of 12" 900 5]
  by (simp add: Let_def round_real_def monthlyRate_of_def)

section \<open>The exact arithmetic\<close>

text \<open>
  With \<open>exact\<close> for the arithmetic, the scenarios are the functions of the first part.
\<close>

lemma exact_ops [simp]:
  "op_add exact = js_add" "op_sub exact = js_sub" "op_mul exact = js_mul"
  "op_div exact = js_div" "op_log exact = Math_log" "op_pow exact = js_pow"
  by (simp_all add: exact_def)

lemma js_pow_Num: "js_pow (Num x) n = Num (x ^ n)"
  by (cases n) simp_all

lemma computeEMI_exact:
  "computeEMI balance r months = computeEMI_with exact balance r months"
  by (simp add: computeEMI_def computeEMI_with_def js_pow_Num js_sub_def Let_def)

lemma sum_interest_exact: "sum_interest rows = sum_interest_with exact rows"
  by (simp add: sum_interest_def sum_interest_with_def)

lemma keepEMI_of_exact: "keepEMI_of emi out r = keepEMI_with exact emi out r"
proof -
  have d: "js_sub (Num emi) (js_mul (Num out) (Num r)) = Num (emi - out * r)"
    by (simp add: js_sub_def)
  have le: "js_le (Num (emi - out * r)) (Num 0) = (emi - out * r \<le> 0)"
    by simp
  show ?thesis
  proof (cases "emi - out * r \<le> 0")
    case True
    then show ?thesis
      by (simp only: keepEMI_of_def keepEMI_with_def Let_def exact_ops d le if_True)
  next
    case False
    then have q: "js_div (Num emi) (Num (emi - out * r)) = Num (emi / (emi - out * r))"
      by simp
    have a: "js_add (Num 1) (Num r) = Num (1 + r)"
      by simp
    show ?thesis
      by (simp only: keepEMI_of_def keepEMI_with_def Let_def exact_ops d le q a
          sum_interest_exact False if_False)
  qed
qed

lemma reduceEMI_of_exact:
  "reduceEMI_of out r totalTenure monthsDone = reduceEMI_with exact out r totalTenure monthsDone"
  unfolding reduceEMI_of_def reduceEMI_with_def computeEMI_exact sum_interest_exact
  by (rule refl)

lemma reschedule_exact:
  "reschedule officialSchedule principalOpt annualRate emi totalTenure paidEmis prepayments =
   reschedule_with exact officialSchedule principalOpt (monthlyRate_of annualRate) emi totalTenure
     paidEmis prepayments"
  unfolding reschedule_def reschedule_with_def keepEMI_of_exact reduceEMI_of_exact Let_def
  by (rule refl)

section \<open>Claim C6: computeEMI\<close>

text \<open>
  With a monthly rate of 0 the factor is 1 and the quotient of \<^verbatim>\<open>computeEMI\<close> is
  \<^verbatim>\<open>0 / 0\<close>: the function returns \<^verbatim>\<open>NaN\<close>.
\<close>

lemma computeEMI_zero_rate:
  "0 < months \<Longrightarrow> computeEMI balance 0 months = NaN"
  by (simp add: computeEMI_def)

text \<open>
  In exact arithmetic, wherever \<open>(1+r)^n \<noteq> 1\<close>, the value is the annuity formula rounded.
  A double can differ from it: the power and the quotient are rounded.
\<close>

lemma computeEMI_exact_formula:
  "0 < months \<Longrightarrow> (1 + r) ^ nat months \<noteq> 1 \<Longrightarrow>
   computeEMI_with exact balance r months =
     Num (round_real (balance * r * (1 + r) ^ nat months / ((1 + r) ^ nat months - 1)))"
  by (simp add: computeEMI_exact [symmetric] computeEMI_def Let_def)




section \<open>Claim C10: a prepayment at month 0\<close>

lemma add_prepayment_month_zero:
  "pmonth p = Some 0 \<Longrightarrow> add_prepayment m p = m"
  by (simp add: add_prepayment_def)

lemma add_prepayment_no_zero_key:
  "map_of m 0 = None \<Longrightarrow> map_of (add_prepayment m p) 0 = None"
  by (simp add: add_prepayment_def update_conv' split: option.splits)

lemma foldl_add_prepayment_no_zero_key:
  "map_of m 0 = None \<Longrightarrow> map_of (foldl add_prepayment m ps) 0 = None"
  by (induction ps arbitrary: m) (simp_all add: add_prepayment_no_zero_key)

lemma build_prepayMap_no_zero_key: "map_of (build_prepayMap ps) 0 = None"
  by (simp add: build_prepayMap_def foldl_add_prepayment_no_zero_key)

lemma build_prepayMap_skip_zero:
  "pmonth p = Some 0 \<Longrightarrow> build_prepayMap (ps @ p # qs) = build_prepayMap (ps @ qs)"
  by (simp add: build_prepayMap_def add_prepayment_month_zero)

lemma simulate_loop_prepay_months:
  "simulate_loop r e pm t cm out lg = (out', lg') \<Longrightarrow>
     \<forall>ev\<in>set lg. \<forall>m. prepay_month ev = Some m \<longrightarrow> prepay_at pm m \<noteq> None \<Longrightarrow>
     \<forall>ev\<in>set lg'. \<forall>m. prepay_month ev = Some m \<longrightarrow> prepay_at pm m \<noteq> None"
proof (induction "nat (t - cm)" arbitrary: cm out lg)
  case 0
  then have "\<not> cm < t" by simp
  with 0 show ?case by (simp add: simulate_loop_done)
next
  case (Suc k)
  then have lt: "cm < t" and k: "k = nat (t - (cm + 1))" by simp_all
  obtain o1 ev where step: "emi_step r e (cm + 1) out = (o1, ev)"
    by (cases "emi_step r e (cm + 1) out")
  then have ev: "prepay_month ev = None"
    by (auto simp: emi_step_def Let_def)
  show ?case
  proof (cases "prepay_at pm (cm + 1)")
    case None
    with Suc.prems(1) have run: "simulate_loop r e pm t (cm + 1) o1 (lg @ [ev]) = (out', lg')"
      by (simp add: simulate_loop_step [OF lt step])
    show ?thesis
      by (rule Suc.hyps(1) [OF k run]) (use Suc.prems(2) ev in auto)
  next
    case (Some prepay)
    with Suc.prems(1) have run: "simulate_loop r e pm t (cm + 1) (apply_prepay o1 prepay)
        (lg @ [ev, PREPAY (cm + 1) prepay o1 (apply_prepay o1 prepay)]) = (out', lg')"
      by (simp add: simulate_loop_step [OF lt step])
    show ?thesis
      by (rule Suc.hyps(1) [OF k run]) (use Suc.prems(2) ev Some in auto)
  qed
qed

lemma simulate_prepay_months:
  "\<forall>ev\<in>set (snd (simulate r e pm paidEmis out0)). \<forall>m. prepay_month ev = Some m \<longrightarrow> prepay_at pm m \<noteq> None"
proof -
  obtain out lg where run:
    "simulate_loop r e pm (simulateTargetMonth pm paidEmis) paidEmis out0 [] = (out, lg)"
    by (cases "simulate_loop r e pm (simulateTargetMonth pm paidEmis) paidEmis out0 []")
  from simulate_loop_prepay_months [OF run]
  have "\<forall>ev\<in>set lg. \<forall>m. prepay_month ev = Some m \<longrightarrow> prepay_at pm m \<noteq> None"
    by simp
  then show ?thesis
    by (auto simp: simulate_def run Let_def split: option.splits)
qed

text \<open>
  C10. In the merge of the prepayment plan an entry whose month is 0 is discarded, whatever
  its amount, although 0 is a numeric month (\<^verbatim>\<open>!mm\<close> is true for 0): the merged map is
  the one of the plan without the entry, it never has the key 0, the reply of the handler is
  the reply for the plan without the entry, and no prepayment entry of the log has month 0.
\<close>

theorem month_zero_prepayment_discarded:
  "build_prepayMap (ps @ \<lparr>pmonth = Some 0, amount = a\<rparr> # qs) = build_prepayMap (ps @ qs) \<and>
   map_of (build_prepayMap ps) 0 = None \<and>
   reschedule officialSchedule principalOpt annualRate emi totalTenure paidEmis
       (ps @ \<lparr>pmonth = Some 0, amount = a\<rparr> # qs) =
     reschedule officialSchedule principalOpt annualRate emi totalTenure paidEmis (ps @ qs) \<and>
   (\<forall>ev\<in>set (snd (simulate r emi (build_prepayMap ps) paidEmis out0)). prepay_month ev \<noteq> Some 0)"
proof -
  have skip: "build_prepayMap (ps @ \<lparr>pmonth = Some 0, amount = a\<rparr> # qs) = build_prepayMap (ps @ qs)"
    by (rule build_prepayMap_skip_zero) simp
  have "prepay_at (build_prepayMap ps) 0 = None"
    by (simp add: prepay_at_def build_prepayMap_no_zero_key)
  with simulate_prepay_months [of r emi "build_prepayMap ps" paidEmis out0]
  have events: "\<forall>ev\<in>set (snd (simulate r emi (build_prepayMap ps) paidEmis out0)). prepay_month ev \<noteq> Some 0"
    by auto
  have resp: "reschedule officialSchedule principalOpt annualRate emi totalTenure paidEmis
       (ps @ \<lparr>pmonth = Some 0, amount = a\<rparr> # qs) =
     reschedule officialSchedule principalOpt annualRate emi totalTenure paidEmis (ps @ qs)"
    unfolding reschedule_def skip by (rule refl)
  from skip resp events show ?thesis
    by (simp add: build_prepayMap_no_zero_key)
qed

theorem month_zero_prepayment_discarded_witness:
  "build_prepayMap [\<lparr>pmonth = Some 2, amount = Some 100\<rparr>, \<lparr>pmonth = Some 0, amount = Some 7\<rparr>,
       \<lparr>pmonth = Some 2, amount = Some 50\<rparr>] = [(2, Some 150)] \<and>
   build_prepayMap [\<lparr>pmonth = Some 2, amount = Some 100\<rparr>, \<lparr>pmonth = Some 2, amount = Some 50\<rparr>] =
     [(2, Some 150)] \<and>
   snd (simulate (1 / 8) 400 (build_prepayMap [\<lparr>pmonth = Some 2, amount = Some 100\<rparr>,
       \<lparr>pmonth = Some 0, amount = Some 7\<rparr>, \<lparr>pmonth = Some 2, amount = Some 50\<rparr>]) 1 1000) =
     [EMI 2 400 125 275 725, PREPAY 2 150 725 575] \<and>
   list_all (\<lambda>ev. prepay_month ev \<noteq> Some 0)
     (snd (simulate (1 / 8) 400 (build_prepayMap [\<lparr>pmonth = Some 2, amount = Some 100\<rparr>,
       \<lparr>pmonth = Some 0, amount = Some 7\<rparr>, \<lparr>pmonth = Some 2, amount = Some 50\<rparr>]) 1 1000))"
proof -
  have m: "build_prepayMap [\<lparr>pmonth = Some 2, amount = Some 100\<rparr>, \<lparr>pmonth = Some 2, amount = Some 50\<rparr>] =
     [(2, Some 150)]"
    by (simp add: build_prepayMap_def add_prepayment_def prepay_or_zero_def)
  have sim: "snd (simulate (1 / 8) 400 [(2, Some 150)] 1 1000) =
     [EMI 2 400 125 275 725, PREPAY 2 150 725 575]"
    by (simp add: simulate_def simulateTargetMonth_def lastPrepayMonth_def simulate_loop.simps
        prepay_at_def emi_step_def apply_prepay_def round_real_def Let_def)
  from month_zero_prepayment_discarded [of "[\<lparr>pmonth = Some 2, amount = Some 100\<rparr>]" "Some 7"
      "[\<lparr>pmonth = Some 2, amount = Some 50\<rparr>]"]
  have skip: "build_prepayMap [\<lparr>pmonth = Some 2, amount = Some 100\<rparr>, \<lparr>pmonth = Some 0, amount = Some 7\<rparr>,
       \<lparr>pmonth = Some 2, amount = Some 50\<rparr>] = [(2, Some 150)]"
    by (simp add: m)
  show ?thesis
    unfolding skip m sim by simp
qed

section \<open>Claim C2: the prepayment at month paidEmis\<close>

lemma rate_12: "monthlyRate_of 12 = 1 / 100"
  by (simp add: monthlyRate_of_def)

text \<open>
  C2 says that a prepayment at month \<open>paidEmis\<close> is subtracted from the starting
  outstanding before any further EMI step, also when the plan has later prepayments. The
  block \<^verbatim>\<open>if (prepayMap[paidEmis])\<close> stands after the simulation loop, so with later
  prepayments it subtracts from the outstanding that the loop has left. For the request
  with principal 100000, annual rate 12, EMI 2000, one paid EMI and prepayments of 50000
  at month 1 and 10000 at month 2, the starting outstanding is 99000; the handler charges
  the interest of month 2 on 99000 (990), applies the prepayment of month 2, and only then
  subtracts the 50000 from 87990 (its \<open>before\<close>), ending at 37990 with the entry at the
  head of the log. Subtracting the 50000 first gives 49000, an interest of 490 in month 2,
  and 37490 at the end.
\<close>

theorem retroactive_prepayment_after_simulation:
  "startingOutstanding None (Some 100000) (monthlyRate_of 12) 2000 1 = Inr 99000 \<and>
   build_prepayMap [\<lparr>pmonth = Some 1, amount = Some 50000\<rparr>, \<lparr>pmonth = Some 2, amount = Some 10000\<rparr>] =
     [(1, Some 50000), (2, Some 10000)] \<and>
   simulate (monthlyRate_of 12) 2000 [(1, Some 50000), (2, Some 10000)] 1 99000 =
     (37990,
      [PREPAY_AFTER_ALREADY_PAID_EMI 1 50000 87990 37990,
       EMI 2 2000 990 1010 97990,
       PREPAY 2 10000 97990 87990]) \<and>
   apply_prepay 99000 50000 = 49000 \<and>
   simulate (monthlyRate_of 12) 2000 [(2, Some 10000)] 1 49000 =
     (37490, [EMI 2 2000 490 1510 47490, PREPAY 2 10000 47490 37490])"
  unfolding rate_12
  by (simp add: startingOutstanding_def build_prepayMap_def add_prepayment_def prepay_or_zero_def
      simulate_def simulateTargetMonth_def lastPrepayMonth_def simulate_loop.simps
      prepay_at_def emi_step_def apply_prepay_def round_real_def)

section \<open>Scenario A: the estimate of the months and the cap\<close>

lemma iterationCap_less:
  "js_lt (Num (real m)) c \<longleftrightarrow> enat m < iterationCap c"
proof (cases c)
  case (Num x)
  have "real m < x \<longleftrightarrow> int m < \<lceil>x\<rceil>"
    by (simp add: less_ceiling_iff)
  then show ?thesis
    using Num by auto
qed (simp_all add: zero_enat_def)

lemma months_estimate_ratio:
  "0 < q \<Longrightarrow> - 1 < r \<Longrightarrow> r \<noteq> 0 \<Longrightarrow>
   Math_ceil (js_div (Math_log (Num q)) (Math_log (Num (1 + r)))) =
     Num (of_int \<lceil>ln q / ln (1 + r)\<rceil>)"
  by simp

lemma months_estimate_finite:
  assumes "0 < emi" and "0 < emi - out * r" and "- 1 < r" and "r \<noteq> 0"
  shows "Math_ceil (js_div (Math_log (Num (emi / (emi - out * r)))) (Math_log (Num (1 + r)))) =
     Num (of_int \<lceil>ln (emi / (emi - out * r)) / ln (1 + r)\<rceil>)"
proof -
  have "0 < emi / (emi - out * r)"
    using assms by simp
  then show ?thesis
    using assms(3,4) by (rule months_estimate_ratio)
qed

lemma iterationCap_plus_5:
  "iterationCap (js_add (Num (of_int m)) (Num 5)) = enat (nat (m + 5))"
  by simp

lemma keepEMI_cap_finite:
  assumes "0 < emi" and "0 < emi - out * r"
  shows "\<exists>n. iterationCap (js_add (Math_ceil (js_div (Math_log (Num (emi / (emi - out * r))))
      (Math_log (Num (1 + r))))) (Num 5)) = enat n"
proof -
  have q: "0 < emi / (emi - out * r)"
    using assms by simp
  show ?thesis
  proof (cases "r = 0")
    case True
    then show ?thesis using assms by (simp add: zero_enat_def)
  next
    case False
    then show ?thesis using q by (auto simp: zero_enat_def)
  qed
qed

lemma keepEMI_of_returns:
  assumes "0 < emi"
  shows "\<exists>k. keepEMI_of emi out r = Some k"
proof (cases "emi - out * r \<le> 0")
  case True
  then show ?thesis by (simp add: keepEMI_of_def)
next
  case False
  then have "0 < emi - out * r" by simp
  from keepEMI_cap_finite [OF assms this] obtain n where
    "iterationCap (js_add (Math_ceil (js_div (Math_log (Num (emi / (emi - out * r))))
      (Math_log (Num (1 + r))))) (Num 5)) = enat n" ..
  then show ?thesis
    using False
    by (simp add: keepEMI_of_def Let_def amortizeUntilPaid_finite split: sum.splits)
qed


lemma amortize_first_step_throws:
  assumes "0 < b" and "e - round_real (b * r) \<le> 0"
  shows "amortizeUntilPaid (Num b) r (Num e) (enat (Suc n)) = Some (Inl EmiTooSmall)"
  using assms amortize_steps_Suc_Num [OF assms(1) refl refl refl refl, of r e n]
  by (simp add: amortizeUntilPaid_finite del: amortize_steps.simps)

lemma ceiling_ln_ratio:
  fixes a q :: real
  assumes "1 < a" and "a ^ n < q" and "q \<le> a ^ Suc n"
  shows "\<lceil>ln q / ln a\<rceil> = int (Suc n)"
proof -
  have a: "0 < a"
    using assms(1) by simp
  have lna: "0 < ln a"
    using assms(1) by (rule ln_gt_zero)
  have q: "0 < q"
    using assms(2) a by (meson less_trans zero_less_power)
  have "ln (a ^ n) < ln q"
    using assms(2) a q by simp
  then have lower: "real n < ln q / ln a"
    using lna a by (simp add: ln_realpow pos_less_divide_eq)
  have "ln q \<le> ln (a ^ Suc n)"
    using assms(3) a q by simp
  then have upper: "ln q / ln a \<le> real (Suc n)"
    using lna a by (simp add: ln_realpow pos_divide_le_eq del: power_Suc)
  show ?thesis
    by (rule ceiling_unique) (use lower upper in simp_all)
qed

lemma keepEMI_of_infinite:
  "emi - out * r \<le> 0 \<Longrightarrow>
   keepEMI_of emi out r =
     Some \<lparr>monthsToFinish = PosInf, schedule = [], totalInterest = PosInf, error = None\<rparr>"
  by (simp add: keepEMI_of_def)

lemma keepEMI_of_finite:
  assumes "0 < emi - out * r" and "0 < emi" and "- 1 < r" and "r \<noteq> 0"
    and "m = \<lceil>ln (emi / (emi - out * r)) / ln (1 + r)\<rceil>"
  shows "keepEMI_of emi out r =
     (case amortizeUntilPaid (Num out) r (Num emi) (enat (nat (m + 5))) of
        None \<Rightarrow> None
      | Some (Inl e) \<Rightarrow>
          Some \<lparr>monthsToFinish = Num (of_int m), schedule = [], totalInterest = Num 0,
                error = Some (message e)\<rparr>
      | Some (Inr rows) \<Rightarrow>
          Some \<lparr>monthsToFinish = Num (of_int m), schedule = rows,
                totalInterest = sum_interest rows, error = None\<rparr>)"
proof -
  have "\<not> emi - out * r \<le> 0"
    using assms(1) by simp
  then show ?thesis
    unfolding keepEMI_of_def Let_def
      months_estimate_finite [OF assms(2) assms(1) assms(3) assms(4)] assms(5) [symmetric]
      iterationCap_plus_5
    by (simp only: if_False)
qed


lemma amortize_steps_error:
  "amortize_steps r e k b m out = Inl x \<Longrightarrow> x = EmiTooSmall"
  by (induction k arbitrary: b m out) (auto simp: Let_def split: if_splits)

lemma amortizeUntilPaid_error:
  "amortizeUntilPaid b r e (enat n) = Some (Inl x) \<Longrightarrow> x = EmiTooSmall"
  by (simp add: amortizeUntilPaid_finite amortize_steps_error)

text \<open>Whatever the cap, the only error of the loop is the one it throws itself.\<close>

lemma amortize_loop_error:
  assumes "amortize_loop r e cap b m out = Some y"
  shows "\<forall>x. y = Inl x \<longrightarrow> x = EmiTooSmall"
  using assms
  by (rule amortize_loop.raw_induct
      [where P = "\<lambda>r e cap b m out y. \<forall>x. y = Inl x \<longrightarrow> x = EmiTooSmall", rotated])
    (auto simp: Let_def split: if_splits)

lemma amortizeUntilPaid_error_any:
  "amortizeUntilPaid b r e cap = Some (Inl x) \<Longrightarrow> x = EmiTooSmall"
  using amortize_loop_error [of r e cap b 0 "[]" "Inl x"]
  by (simp add: amortizeUntilPaid_def)

lemma amortize_steps_numeral:
  "amortize_steps r e (numeral k) b m out =
     (if js_gt b (Num 0) then
        (let m' = m + 1;
             i = round_js (js_scale b r);
             p = js_sub e i
         in if js_le p (Num 0) then Inl EmiTooSmall
            else
              (let p' = (if js_gt p b then b else p);
                   emiPaid = js_add i p';
                   b' = round_js (js_sub b p')
               in amortize_steps r e (pred_numeral k) b' m'
                    (out @ [\<lparr>month = m', emi_paid = emiPaid, principal = p',
                              interest = i, remaining = Math_max b' (Num 0)\<rparr>])))
      else Inr out)"
  by (simp only: numeral_eq_Suc amortize_steps.simps)

section \<open>Claim C4: Scenario A\<close>

text \<open>
  C4 says that whenever \<open>emi - outstanding \<times> r > 0\<close> the schedule of Scenario A is the one
  that \<^verbatim>\<open>amortizeUntilPaid\<close> returns with cap \<open>monthsToFinish + 5\<close>. That call throws
  when the rounded interest of the first month reaches the EMI, which \<open>emi - outstanding \<times> r > 0\<close>
  does not exclude: with an outstanding of 9970, an annual rate of 12 and an EMI of 100
  the difference is 0.3, the interest rounds to 100 and the principal is 0. The \<^verbatim>\<open>catch\<close>
  of the scenario then leaves the schedule empty and the total interest 0, and stores the
  message in \<^verbatim>\<open>keepEMI.error\<close>.
\<close>

theorem keepEMI_scenario_error_counterexample:
  "0 < 100 - 9970 * monthlyRate_of 12 \<and>
   amortizeUntilPaid (Num 9970) (monthlyRate_of 12) (Num 100)
       (enat (nat (\<lceil>ln (100 / (100 - 9970 * monthlyRate_of 12)) / ln (1 + monthlyRate_of 12)\<rceil> + 5))) =
     Some (Inl EmiTooSmall) \<and>
   keepEMI_of 100 9970 (monthlyRate_of 12) =
     Some \<lparr>monthsToFinish =
             Num (of_int \<lceil>ln (100 / (100 - 9970 * monthlyRate_of 12)) / ln (1 + monthlyRate_of 12)\<rceil>),
           schedule = [], totalInterest = Num 0,
           error = Some ''EMI too small to cover interest.''\<rparr>"
proof -
  define m where "m = \<lceil>ln (100 / (100 - 9970 * monthlyRate_of 12)) / ln (1 + monthlyRate_of 12)\<rceil>"
  have denom: "0 < 100 - 9970 * monthlyRate_of 12"
    by (simp add: monthlyRate_of_def)
  have "0 \<le> ln (100 / (100 - 9970 * monthlyRate_of 12)) / ln (1 + monthlyRate_of 12)"
    by (simp add: monthlyRate_of_def)
  then have "0 \<le> m"
    unfolding m_def by linarith
  then obtain n where n: "nat (m + 5) = Suc n"
    by (cases "nat (m + 5)") simp_all
  have run: "amortizeUntilPaid (Num 9970) (monthlyRate_of 12) (Num 100) (enat (nat (m + 5))) =
      Some (Inl EmiTooSmall)"
    unfolding n by (rule amortize_first_step_throws) (simp_all add: monthlyRate_of_def round_real_def)
  have "keepEMI_of 100 9970 (monthlyRate_of 12) =
      Some \<lparr>monthsToFinish = Num (of_int m), schedule = [], totalInterest = Num 0,
            error = Some ''EMI too small to cover interest.''\<rparr>"
    by (subst keepEMI_of_finite [OF denom _ _ _ m_def])
      (simp_all add: run message_def, simp_all add: monthlyRate_of_def)
  with denom run show ?thesis
    unfolding m_def by blast
qed

text \<open>
  C4 as amended. In Scenario A, with \<open>denom\<close> the value the arithmetic gives to
  \<^verbatim>\<open>emi - outstandingAfterPrepayments * monthlyRate\<close>: whenever \<open>denom \<le> 0\<close> the result
  has \<open>monthsToFinish\<close> and \<open>totalInterest\<close> infinite, an empty schedule and no error.
  Otherwise \<open>monthsToFinish\<close> is \<^verbatim>\<open>Math.ceil\<close> of the value the arithmetic gives to
  \<^verbatim>\<open>Math.log(emi / denom) / Math.log(1 + monthlyRate)\<close>, which need not be a finite number,
  and \<^verbatim>\<open>amortizeUntilPaid\<close> is run with cap \<open>monthsToFinish + 5\<close>. When the run returns a
  schedule, that is the schedule of the result and \<open>totalInterest\<close> is the sum of its
  interest column; when it throws ("EMI too small to cover interest."), the schedule of the
  result is empty, \<open>totalInterest\<close> is 0 and the message is the result's error; when it does
  not end, there is no result. With a finite cap the run ends. All of this holds whatever
  the operations of the arithmetic return.
\<close>

theorem keepEMI_scenario:
  "(let denom = op_sub A (Num emi) (op_mul A (Num out) (Num r))
    in (js_le denom (Num 0) \<longrightarrow>
          keepEMI_with A emi out r =
            Some \<lparr>monthsToFinish = PosInf, schedule = [], totalInterest = PosInf, error = None\<rparr>) \<and>
       (\<not> js_le denom (Num 0) \<longrightarrow>
          (let monthsToFinish =
                 Math_ceil (op_div A (op_log A (op_div A (Num emi) denom))
                              (op_log A (op_add A (Num 1) (Num r))));
               cap = iterationCap (op_add A monthsToFinish (Num 5));
               run = amortizeUntilPaid (Num out) r (Num emi) cap
           in (\<forall>rows. run = Some (Inr rows) \<longrightarrow>
                 keepEMI_with A emi out r =
                   Some \<lparr>monthsToFinish = monthsToFinish, schedule = rows,
                         totalInterest = sum_interest_with A rows, error = None\<rparr>) \<and>
              (\<forall>e. run = Some (Inl e) \<longrightarrow>
                 e = EmiTooSmall \<and>
                 keepEMI_with A emi out r =
                   Some \<lparr>monthsToFinish = monthsToFinish, schedule = [], totalInterest = Num 0,
                         error = Some ''EMI too small to cover interest.''\<rparr>) \<and>
              (run = None \<longrightarrow> keepEMI_with A emi out r = None) \<and>
              (cap \<noteq> \<infinity> \<longrightarrow> run \<noteq> None))))"
proof -
  define denom where "denom = op_sub A (Num emi) (op_mul A (Num out) (Num r))"
  define monthsToFinish where "monthsToFinish =
    Math_ceil (op_div A (op_log A (op_div A (Num emi) denom)) (op_log A (op_add A (Num 1) (Num r))))"
  define cap where "cap = iterationCap (op_add A monthsToFinish (Num 5))"
  define run where "run = amortizeUntilPaid (Num out) r (Num emi) cap"
  have inf: "keepEMI_with A emi out r =
      Some \<lparr>monthsToFinish = PosInf, schedule = [], totalInterest = PosInf, error = None\<rparr>"
    if "js_le denom (Num 0)"
    using that by (simp add: keepEMI_with_def denom_def)
  have fin: "keepEMI_with A emi out r =
      (case run of
         None \<Rightarrow> None
       | Some (Inl e) \<Rightarrow>
           Some \<lparr>monthsToFinish = monthsToFinish, schedule = [], totalInterest = Num 0,
                 error = Some (message e)\<rparr>
       | Some (Inr rows) \<Rightarrow>
           Some \<lparr>monthsToFinish = monthsToFinish, schedule = rows,
                 totalInterest = sum_interest_with A rows, error = None\<rparr>)"
    if "\<not> js_le denom (Num 0)"
    using that
    unfolding keepEMI_with_def Let_def denom_def [symmetric] monthsToFinish_def [symmetric]
      cap_def [symmetric] run_def [symmetric]
    by simp
  have 1: "keepEMI_with A emi out r =
      Some \<lparr>monthsToFinish = monthsToFinish, schedule = rows,
            totalInterest = sum_interest_with A rows, error = None\<rparr>"
    if "\<not> js_le denom (Num 0)" "run = Some (Inr rows)" for rows
    using fin [OF that(1)] that(2) by simp
  have 2: "e = EmiTooSmall \<and> keepEMI_with A emi out r =
      Some \<lparr>monthsToFinish = monthsToFinish, schedule = [], totalInterest = Num 0,
            error = Some ''EMI too small to cover interest.''\<rparr>"
    if "\<not> js_le denom (Num 0)" "run = Some (Inl e)" for e
  proof -
    from that(2) have "e = EmiTooSmall"
      unfolding run_def by (rule amortizeUntilPaid_error_any)
    then show ?thesis
      using fin [OF that(1)] that(2) by (simp add: message_def)
  qed
  have 3: "keepEMI_with A emi out r = None" if "\<not> js_le denom (Num 0)" "run = None"
    using fin [OF that(1)] that(2) by simp
  have 4: "run \<noteq> None" if "cap \<noteq> \<infinity>"
  proof -
    from that obtain n where "cap = enat n" by (cases cap) simp_all
    then show ?thesis
      by (simp add: run_def amortizeUntilPaid_finite)
  qed
  from inf 1 2 3 4 show ?thesis
    unfolding Let_def denom_def [symmetric] monthsToFinish_def [symmetric]
      cap_def [symmetric] run_def [symmetric]
    by blast
qed

theorem keepEMI_scenario_witness:
  "js_le (op_sub exact (Num 900) (op_mul exact (Num 100000) (Num (1 / 100)))) (Num 0) \<and>
   keepEMI_with exact 900 100000 (1 / 100) =
     Some \<lparr>monthsToFinish = PosInf, schedule = [], totalInterest = PosInf, error = None\<rparr> \<and>
   \<not> js_le (op_sub exact (Num 2000) (op_mul exact (Num 3900) (Num (1 / 100)))) (Num 0) \<and>
   Math_ceil (op_div exact (op_log exact (op_div exact (Num 2000) (Num 1961)))
                (op_log exact (op_add exact (Num 1) (Num (1 / 100))))) = Num 2 \<and>
   amortizeUntilPaid (Num 3900) (1 / 100) (Num 2000) (enat 7) =
     Some (Inr [\<lparr>month = 1, emi_paid = Num 2000, principal = Num 1961, interest = Num 39, remaining = Num 1939\<rparr>,
                \<lparr>month = 2, emi_paid = Num 1958, principal = Num 1939, interest = Num 19, remaining = Num 0\<rparr>]) \<and>
   keepEMI_with exact 2000 3900 (1 / 100) =
     Some \<lparr>monthsToFinish = Num 2,
           schedule =
             [\<lparr>month = 1, emi_paid = Num 2000, principal = Num 1961, interest = Num 39, remaining = Num 1939\<rparr>,
              \<lparr>month = 2, emi_paid = Num 1958, principal = Num 1939, interest = Num 19, remaining = Num 0\<rparr>],
           totalInterest = Num 58, error = None\<rparr> \<and>
   \<not> js_le (op_sub exact (Num 1) (op_mul exact (Num 6) (Num (1 / 10)))) (Num 0) \<and>
   Math_ceil (op_div exact (op_log exact (op_div exact (Num 1) (Num (4 / 10))))
                (op_log exact (op_add exact (Num 1) (Num (1 / 10))))) = Num 10 \<and>
   amortizeUntilPaid (Num 6) (1 / 10) (Num 1) (enat 15) = Some (Inl EmiTooSmall) \<and>
   keepEMI_with exact 1 6 (1 / 10) =
     Some \<lparr>monthsToFinish = Num 10, schedule = [], totalInterest = Num 0,
           error = Some ''EMI too small to cover interest.''\<rparr>"
proof -
  have m2: "\<lceil>ln (2000 / 1961) / ln (1 + 1 / 100 :: real)\<rceil> = (2::int)"
    using ceiling_ln_ratio [of "1 + 1 / 100" 1 "2000 / 1961"]
    by (simp add: power2_eq_square)
  have m10: "\<lceil>ln (1 / (4 / 10)) / ln (1 + 1 / 10 :: real)\<rceil> = (10::int)"
    using ceiling_ln_ratio [of "1 + 1 / 10" 9 "1 / (4 / 10)"]
    by (simp add: power_divide)
  have c2: "Math_ceil (op_div exact (op_log exact (op_div exact (Num 2000) (Num 1961)))
                (op_log exact (op_add exact (Num 1) (Num (1 / 100))))) = Num 2"
    using months_estimate_ratio [of "2000 / 1961" "1 / 100"] m2 by simp
  have c10: "Math_ceil (op_div exact (op_log exact (op_div exact (Num 1) (Num (4 / 10))))
                (op_log exact (op_add exact (Num 1) (Num (1 / 10))))) = Num 10"
    using months_estimate_ratio [of "1 / (4 / 10)" "1 / 10"] m10 by simp
  have d1: "op_sub exact (Num 900) (op_mul exact (Num 100000) (Num (1 / 100))) = Num (- 100)"
    and d2: "op_sub exact (Num 2000) (op_mul exact (Num 3900) (Num (1 / 100))) = Num 1961"
    and d3: "op_sub exact (Num 1) (op_mul exact (Num 6) (Num (1 / 10))) = Num (4 / 10)"
    by (simp_all add: js_sub_def)
  have cap: "iterationCap (op_add exact (Num 2) (Num 5)) = enat 7"
    "iterationCap (op_add exact (Num 10) (Num 5)) = enat 15"
    by simp_all
  have run2: "amortizeUntilPaid (Num 3900) (1 / 100) (Num 2000) (enat 7) =
     Some (Inr [\<lparr>month = 1, emi_paid = Num 2000, principal = Num 1961, interest = Num 39, remaining = Num 1939\<rparr>,
                \<lparr>month = 2, emi_paid = Num 1958, principal = Num 1939, interest = Num 19, remaining = Num 0\<rparr>])"
    by (simp add: amortizeUntilPaid_finite amortize_steps_numeral js_sub_def round_real_def Let_def)
  have run10: "amortizeUntilPaid (Num 6) (1 / 10) (Num 1) (enat 15) = Some (Inl EmiTooSmall)"
    by (simp add: amortizeUntilPaid_finite amortize_steps_numeral js_sub_def round_real_def Let_def)
  have le: "js_le (Num (- 100)) (Num 0)" "\<not> js_le (Num 1961) (Num 0)" "\<not> js_le (Num (4 / 10)) (Num 0)"
    by simp_all
  from keepEMI_scenario [of exact 900 100000 "1 / 100"]
  have inf: "keepEMI_with exact 900 100000 (1 / 100) =
      Some \<lparr>monthsToFinish = PosInf, schedule = [], totalInterest = PosInf, error = None\<rparr>"
    unfolding Let_def d1 using le(1) by blast
  from keepEMI_scenario [of exact 2000 3900 "1 / 100"]
  have "\<forall>rows. amortizeUntilPaid (Num 3900) (1 / 100) (Num 2000) (enat 7) = Some (Inr rows) \<longrightarrow>
      keepEMI_with exact 2000 3900 (1 / 100) =
        Some \<lparr>monthsToFinish = Num 2, schedule = rows,
              totalInterest = sum_interest_with exact rows, error = None\<rparr>"
    unfolding Let_def d2 c2 cap using le(2) by blast
  then have fin: "keepEMI_with exact 2000 3900 (1 / 100) =
     Some \<lparr>monthsToFinish = Num 2,
           schedule =
             [\<lparr>month = 1, emi_paid = Num 2000, principal = Num 1961, interest = Num 39, remaining = Num 1939\<rparr>,
              \<lparr>month = 2, emi_paid = Num 1958, principal = Num 1939, interest = Num 19, remaining = Num 0\<rparr>],
           totalInterest = Num 58, error = None\<rparr>"
    by (simp add: run2 sum_interest_with_def)
  from keepEMI_scenario [of exact 1 6 "1 / 10"]
  have "\<forall>e. amortizeUntilPaid (Num 6) (1 / 10) (Num 1) (enat 15) = Some (Inl e) \<longrightarrow>
      keepEMI_with exact 1 6 (1 / 10) =
        Some \<lparr>monthsToFinish = Num 10, schedule = [], totalInterest = Num 0,
              error = Some ''EMI too small to cover interest.''\<rparr>"
    unfolding Let_def d3 c10 cap using le(3) by blast
  then have err: "keepEMI_with exact 1 6 (1 / 10) =
        Some \<lparr>monthsToFinish = Num 10, schedule = [], totalInterest = Num 0,
              error = Some ''EMI too small to cover interest.''\<rparr>"
    using run10 by blast
  show ?thesis
    unfolding d1 d2 d3
    using le c2 c10 run2 run10 inf fin err by blast
qed

section \<open>Claim C7: Scenario B\<close>

lemma reduceEMI_of_degenerate:
  "totalTenure - monthsDone \<le> 0 \<Longrightarrow>
   reduceEMI_of out r totalTenure monthsDone =
     Some (Inr \<lparr>newEmi = Num 0, remainingSchedule = [], totalInterestB = Num 0\<rparr>)"
  by (simp add: reduceEMI_of_def)

lemma reduceEMI_of_positive:
  assumes "0 < totalTenure - monthsDone"
  shows "reduceEMI_of out r totalTenure monthsDone =
     (case amortizeUntilPaid (Num out) r (computeEMI out r (totalTenure - monthsDone))
             (enat (nat (totalTenure - monthsDone + 5))) of
        None \<Rightarrow> None
      | Some (Inl e) \<Rightarrow> Some (Inl e)
      | Some (Inr rows) \<Rightarrow>
          Some (Inr \<lparr>newEmi = computeEMI out r (totalTenure - monthsDone),
                     remainingSchedule = take (nat (totalTenure - monthsDone)) rows,
                     totalInterestB = sum_interest (take (nat (totalTenure - monthsDone)) rows)\<rparr>))"
proof -
  have "(if int (length rows) > totalTenure - monthsDone
         then take (nat (totalTenure - monthsDone)) rows else rows) =
        take (nat (totalTenure - monthsDone)) rows" for rows :: "ScheduleRow list"
    by simp
  then show ?thesis
    using assms by (simp add: reduceEMI_of_def Let_def split: option.splits sum.splits)
qed

lemma simulate_no_prepayment:
  "simulate r e [] paidEmis out = (out, [])"
  by (simp add: simulate_def simulateTargetMonth_def lastPrepayMonth_def simulate_loop_done
      prepay_at_def)

text \<open>
  The months of \<^verbatim>\<open>prepayMap\<close> are the months of the entries that the merge keeps: the
  month is a number other than 0 and the amount is not \<open>\<le> 0\<close>, so it is positive or not
  a number.
\<close>

lemma add_prepayment_keys:
  "fst ` set (add_prepayment pm p) =
     fst ` set pm \<union> {m. pmonth p = Some m \<and> m \<noteq> 0 \<and> (\<forall>a. amount p = Some a \<longrightarrow> 0 < a)}"
  by (auto simp: add_prepayment_def dom_update split: option.splits if_splits)

lemma foldl_add_prepayment_keys:
  "fst ` set (foldl add_prepayment pm ps) =
     fst ` set pm \<union>
     {m. \<exists>p\<in>set ps. pmonth p = Some m \<and> m \<noteq> 0 \<and> (\<forall>a. amount p = Some a \<longrightarrow> 0 < a)}"
proof (induction ps arbitrary: pm)
  case Nil
  then show ?case by simp
next
  case (Cons p ps)
  show ?case
    unfolding foldl_Cons Cons.IH add_prepayment_keys by auto
qed

lemma build_prepayMap_keys:
  "fst ` set (build_prepayMap ps) =
     {m. \<exists>p\<in>set ps. pmonth p = Some m \<and> m \<noteq> 0 \<and> (\<forall>a. amount p = Some a \<longrightarrow> 0 < a)}"
  by (simp add: build_prepayMap_def foldl_add_prepayment_keys)

lemma lastPrepayMonth_keys:
  "lastPrepayMonth prepayMap paidEmis =
     (if fst ` set prepayMap = {} then paidEmis else Max (fst ` set prepayMap))"
  by (simp add: lastPrepayMonth_def)

lemma simulateTargetMonth_plan:
  "simulateTargetMonth (build_prepayMap ps) paidEmis =
     max paidEmis
       (if {m. \<exists>p\<in>set ps. pmonth p = Some m \<and> m \<noteq> 0 \<and> (\<forall>a. amount p = Some a \<longrightarrow> 0 < a)} = {}
        then paidEmis
        else Max {m. \<exists>p\<in>set ps. pmonth p = Some m \<and> m \<noteq> 0 \<and> (\<forall>a. amount p = Some a \<longrightarrow> 0 < a)})"
  unfolding simulateTargetMonth_def lastPrepayMonth_keys build_prepayMap_keys
  by (simp add: max.commute)

lemma reduceEMI_with_degenerate:
  "totalTenure - monthsDone \<le> 0 \<Longrightarrow>
   reduceEMI_with A out r totalTenure monthsDone =
     Some (Inr \<lparr>newEmi = Num 0, remainingSchedule = [], totalInterestB = Num 0\<rparr>)"
  by (simp add: reduceEMI_with_def)

lemma reduceEMI_with_positive:
  assumes "0 < totalTenure - monthsDone"
  shows "reduceEMI_with A out r totalTenure monthsDone =
     (case amortizeUntilPaid (Num out) r (computeEMI_with A out r (totalTenure - monthsDone))
             (enat (nat (totalTenure - monthsDone + 5))) of
        None \<Rightarrow> None
      | Some (Inl e) \<Rightarrow> Some (Inl e)
      | Some (Inr rows) \<Rightarrow>
          Some (Inr \<lparr>newEmi = computeEMI_with A out r (totalTenure - monthsDone),
                     remainingSchedule = take (nat (totalTenure - monthsDone)) rows,
                     totalInterestB =
                       sum_interest_with A (take (nat (totalTenure - monthsDone)) rows)\<rparr>))"
proof -
  have "(if int (length rows) > totalTenure - monthsDone
         then take (nat (totalTenure - monthsDone)) rows else rows) =
        take (nat (totalTenure - monthsDone)) rows" for rows :: "ScheduleRow list"
    by simp
  then show ?thesis
    using assms by (simp add: reduceEMI_with_def Let_def split: option.splits sum.splits)
qed

lemma reschedule_with_scenarios:
  assumes "startingOutstanding officialSchedule principalOpt r emi paidEmis = Inr outstanding0"
    and "simulate r emi (build_prepayMap prepayments) paidEmis outstanding0 = (out, lg)"
    and "keepEMI_with A emi out r = Some keep"
  shows "reschedule_with A officialSchedule principalOpt r emi totalTenure paidEmis prepayments =
     (case reduceEMI_with A out r totalTenure
             (simulateTargetMonth (build_prepayMap prepayments) paidEmis) of
        None \<Rightarrow> None
      | Some (Inl e) \<Rightarrow> Some (Inl e)
      | Some (Inr reduce) \<Rightarrow>
          Some (Inr \<lparr>simLog = lg, outstandingAfterPrepayments = out,
                     keepEMI = keep, reduceEMI = reduce\<rparr>))"
  unfolding reschedule_with_def Let_def assms(1) by (simp add: assms(2,3))

text \<open>
  C7 says that whenever months remain, Scenario B returns the new EMI and the truncated
  schedule of \<^verbatim>\<open>amortizeUntilPaid\<close>. For the request with principal 100000, annual rate
  12, EMI 10000, tenure 6, no paid EMI and a prepayment of 90998 at month 1, the latest
  prepayment month is 1 and 5 months remain; the outstanding after the prepayment is 2,
  \<^verbatim>\<open>computeEMI\<close> for the 5 months rounds to 0, the interest of the first month rounds to
  0, the principal is 0 and \<^verbatim>\<open>amortizeUntilPaid\<close> throws. The call has no \<^verbatim>\<open>try\<close>
  around it: the reply is the error, without any result of Scenario B.
\<close>

theorem reduceEMI_scenario_error_counterexample:
  "{m. \<exists>p\<in>set [\<lparr>pmonth = Some 1, amount = Some 90998\<rparr>].
         pmonth p = Some m \<and> m \<noteq> 0 \<and> (\<forall>a. amount p = Some a \<longrightarrow> 0 < a)} = {1} \<and>
   (0::int) < 6 - max 0 (Max {1}) \<and>
   startingOutstanding None (Some 100000) (monthlyRate_of 12) 10000 0 = Inr 100000 \<and>
   simulate (monthlyRate_of 12) 10000 (build_prepayMap [\<lparr>pmonth = Some 1, amount = Some 90998\<rparr>])
       0 100000 =
     (2, [EMI 1 10000 1000 9000 91000, PREPAY 1 90998 91000 2]) \<and>
   keepEMI_of 10000 2 (monthlyRate_of 12) =
     Some \<lparr>monthsToFinish = Num 1,
           schedule = [\<lparr>month = 1, emi_paid = Num 2, principal = Num 2, interest = Num 0,
                         remaining = Num 0\<rparr>],
           totalInterest = Num 0, error = None\<rparr> \<and>
   computeEMI 2 (monthlyRate_of 12) 5 = Num 0 \<and>
   amortizeUntilPaid (Num 2) (monthlyRate_of 12) (Num 0) (enat 10) = Some (Inl EmiTooSmall) \<and>
   reschedule None (Some 100000) 12 10000 6 0 [\<lparr>pmonth = Some 1, amount = Some 90998\<rparr>] =
     Some (Inl EmiTooSmall)"
proof -
  have months: "{m. \<exists>p\<in>set [\<lparr>pmonth = Some 1, amount = Some 90998\<rparr>].
         pmonth p = Some m \<and> m \<noteq> 0 \<and> (\<forall>a. amount p = Some a \<longrightarrow> 0 < a)} = {1::int}"
    by auto
  have pos: "(0::int) < 6 - max 0 (Max {1})"
    by simp
  have start: "startingOutstanding None (Some 100000) (1 / 100) 10000 0 = Inr 100000"
    by (simp add: startingOutstanding_def)
  have plan: "build_prepayMap [\<lparr>pmonth = Some 1, amount = Some 90998\<rparr>] = [(1, Some 90998)]"
    by (simp add: build_prepayMap_def add_prepayment_def prepay_or_zero_def)
  have target: "simulateTargetMonth [(1, Some 90998)] 0 = 1"
    by (simp add: simulateTargetMonth_def lastPrepayMonth_def)
  have sim: "simulate (1 / 100) 10000 [(1, Some 90998)] 0 100000 =
      (2, [EMI 1 10000 1000 9000 91000, PREPAY 1 90998 91000 2])"
    by (simp add: simulate_def target simulate_loop.simps prepay_at_def emi_step_def
        apply_prepay_def round_real_def)
  have m: "\<lceil>ln (10000 / (10000 - 2 * (1 / 100))) / ln (1 + 1 / 100 :: real)\<rceil> = (1::int)"
    using ceiling_ln_ratio [of "1 + 1 / 100" 0 "10000 / (10000 - 2 * (1 / 100))"]
    by simp
  have runA: "amortizeUntilPaid (Num 2) (1 / 100) (Num 10000) (enat 6) =
      Some (Inr [\<lparr>month = 1, emi_paid = Num 2, principal = Num 2, interest = Num 0,
                    remaining = Num 0\<rparr>])"
    by (simp add: amortizeUntilPaid_finite amortize_steps_numeral js_sub_def round_real_def Let_def)
  have A: "keepEMI_of 10000 2 (1 / 100) =
      Some \<lparr>monthsToFinish = Num 1,
            schedule = [\<lparr>month = 1, emi_paid = Num 2, principal = Num 2, interest = Num 0,
                          remaining = Num 0\<rparr>],
            totalInterest = Num 0, error = None\<rparr>"
    by (subst keepEMI_of_finite [OF _ _ _ _ m [symmetric]])
      (simp_all add: runA sum_interest_def)
  have emi: "computeEMI 2 (1 / 100) 5 = Num 0"
    by (simp add: computeEMI_def round_real_def Let_def power_divide)
  have runB: "amortizeUntilPaid (Num 2) (1 / 100) (Num 0) (enat 10) = Some (Inl EmiTooSmall)"
    by (simp add: amortizeUntilPaid_finite amortize_steps_numeral js_sub_def round_real_def Let_def)
  have B: "reduceEMI_of 2 (1 / 100) 6 1 = Some (Inl EmiTooSmall)"
    by (subst reduceEMI_of_positive) (simp_all add: emi runB)
  have resp: "reschedule None (Some 100000) 12 10000 6 0 [\<lparr>pmonth = Some 1, amount = Some 90998\<rparr>] =
     Some (Inl EmiTooSmall)"
    unfolding reschedule_def rate_12 Let_def start plan target
    by (simp add: sim A B)
  show ?thesis
    unfolding rate_12 plan
    using months pos resp start sim A emi runB by blast
qed

text \<open>
  C7 as amended. For a request whose starting outstanding is read, whose forward simulation
  ends with \<open>out\<close> outstanding and whose Scenario A returns, let the latest prepayment month
  be the largest month among the entries of the plan whose month is a number other than 0
  and whose amount is not \<open>\<le> 0\<close> (\<open>paidEmis\<close> when there is none), and
  \<open>remainingMonths = totalTenure - max(paidEmis, latest prepayment month)\<close>. If
  \<open>remainingMonths \<le> 0\<close> the reply holds for Scenario B \<open>newEmi = 0\<close>, an empty schedule
  and \<open>totalInterest = 0\<close>. Otherwise \<^verbatim>\<open>amortizeUntilPaid\<close> is run on \<open>out\<close> with
  \<open>newEmi = computeEMI(out, monthlyRate, remainingMonths)\<close> and cap \<open>remainingMonths + 5\<close>;
  the run ends, and when it returns a schedule, the reply holds for Scenario B this
  \<open>newEmi\<close>, the first \<open>remainingMonths\<close> rows of the schedule and, as \<open>totalInterest\<close>, the
  sum of the interest of these rows. This holds whatever the operations of the arithmetic
  return.
\<close>

theorem reduceEMI_scenario:
  assumes "startingOutstanding officialSchedule principalOpt r emi paidEmis = Inr outstanding0"
    and "simulate r emi (build_prepayMap prepayments) paidEmis outstanding0 = (out, lg)"
    and "keepEMI_with A emi out r = Some keep"
  shows
   "(let months = {m. \<exists>p\<in>set prepayments.
                       pmonth p = Some m \<and> m \<noteq> 0 \<and> (\<forall>a. amount p = Some a \<longrightarrow> 0 < a)};
         latest = (if months = {} then paidEmis else Max months);
         remainingMonths = totalTenure - max paidEmis latest
     in (remainingMonths \<le> 0 \<longrightarrow>
           reschedule_with A officialSchedule principalOpt r emi totalTenure paidEmis prepayments =
             Some (Inr \<lparr>simLog = lg, outstandingAfterPrepayments = out, keepEMI = keep,
                        reduceEMI = \<lparr>newEmi = Num 0, remainingSchedule = [],
                                     totalInterestB = Num 0\<rparr>\<rparr>)) \<and>
        (0 < remainingMonths \<longrightarrow>
           (let newEmi = computeEMI_with A out r remainingMonths;
                run = amortizeUntilPaid (Num out) r newEmi (enat (nat (remainingMonths + 5)))
            in (\<exists>res. run = Some res) \<and>
               (\<forall>rows. run = Some (Inr rows) \<longrightarrow>
                  reschedule_with A officialSchedule principalOpt r emi totalTenure paidEmis
                      prepayments =
                    Some (Inr \<lparr>simLog = lg, outstandingAfterPrepayments = out, keepEMI = keep,
                               reduceEMI =
                                 \<lparr>newEmi = newEmi,
                                  remainingSchedule = take (nat remainingMonths) rows,
                                  totalInterestB =
                                    sum_interest_with A (take (nat remainingMonths) rows)\<rparr>\<rparr>)))))"
proof -
  define months where "months = {m. \<exists>p\<in>set prepayments.
      pmonth p = Some m \<and> m \<noteq> 0 \<and> (\<forall>a. amount p = Some a \<longrightarrow> 0 < a)}"
  define latest where "latest = (if months = {} then paidEmis else Max months)"
  define remainingMonths where "remainingMonths = totalTenure - max paidEmis latest"
  define newEmi where "newEmi = computeEMI_with A out r remainingMonths"
  define run where "run = amortizeUntilPaid (Num out) r newEmi (enat (nat (remainingMonths + 5)))"
  have target: "simulateTargetMonth (build_prepayMap prepayments) paidEmis = max paidEmis latest"
    unfolding simulateTargetMonth_plan latest_def months_def by (rule refl)
  note resp = reschedule_with_scenarios [OF assms, of totalTenure, unfolded target]
  have 1: "reschedule_with A officialSchedule principalOpt r emi totalTenure paidEmis prepayments =
      Some (Inr \<lparr>simLog = lg, outstandingAfterPrepayments = out, keepEMI = keep,
                 reduceEMI = \<lparr>newEmi = Num 0, remainingSchedule = [], totalInterestB = Num 0\<rparr>\<rparr>)"
    if "remainingMonths \<le> 0"
    unfolding resp using reduceEMI_with_degenerate [of totalTenure "max paidEmis latest" A out r] that
    by (simp add: remainingMonths_def)
  have 2: "\<exists>res. run = Some res"
    by (simp add: run_def amortizeUntilPaid_finite)
  have 3: "reschedule_with A officialSchedule principalOpt r emi totalTenure paidEmis prepayments =
      Some (Inr \<lparr>simLog = lg, outstandingAfterPrepayments = out, keepEMI = keep,
                 reduceEMI =
                   \<lparr>newEmi = newEmi, remainingSchedule = take (nat remainingMonths) rows,
                    totalInterestB = sum_interest_with A (take (nat remainingMonths) rows)\<rparr>\<rparr>)"
    if "0 < remainingMonths" "run = Some (Inr rows)" for rows
  proof -
    from that(1) have pos: "0 < totalTenure - max paidEmis latest"
      by (simp add: remainingMonths_def)
    show ?thesis
      unfolding resp reduceEMI_with_positive [OF pos] remainingMonths_def [symmetric]
        newEmi_def [symmetric] run_def [symmetric] that(2)
      by simp
  qed
  from 1 2 3 show ?thesis
    unfolding Let_def months_def [symmetric] latest_def [symmetric] remainingMonths_def [symmetric]
      newEmi_def [symmetric] run_def [symmetric]
    by blast
qed

theorem reduceEMI_scenario_witness:
  "startingOutstanding None (Some 100000) (1 / 100) 40000 1 = Inr 61000 \<and>
   simulate (1 / 100) 40000
       (build_prepayMap [\<lparr>pmonth = Some 2, amount = Some 10000\<rparr>, \<lparr>pmonth = Some 0, amount = Some 7\<rparr>,
                         \<lparr>pmonth = Some 9, amount = Some 0\<rparr>]) 1 61000 =
     (11610, [EMI 2 40000 610 39390 21610, PREPAY 2 10000 21610 11610]) \<and>
   keepEMI_with exact 40000 11610 (1 / 100) =
     Some \<lparr>monthsToFinish = Num 1,
           schedule = [\<lparr>month = 1, emi_paid = Num 11726, principal = Num 11610,
                         interest = Num 116, remaining = Num 0\<rparr>],
           totalInterest = Num 116, error = None\<rparr> \<and>
   {m. \<exists>p\<in>set [\<lparr>pmonth = Some 2, amount = Some 10000\<rparr>, \<lparr>pmonth = Some 0, amount = Some 7\<rparr>,
                  \<lparr>pmonth = Some 9, amount = Some 0\<rparr>].
         pmonth p = Some m \<and> m \<noteq> 0 \<and> (\<forall>a. amount p = Some a \<longrightarrow> 0 < a)} = {2} \<and>
   (0::int) < 4 - max 1 (Max {2}) \<and>
   computeEMI_with exact 11610 (1 / 100) 2 = Num 5892 \<and>
   amortizeUntilPaid (Num 11610) (1 / 100) (Num 5892) (enat 7) =
     Some (Inr [\<lparr>month = 1, emi_paid = Num 5892, principal = Num 5776, interest = Num 116,
                  remaining = Num 5834\<rparr>,
                \<lparr>month = 2, emi_paid = Num 5892, principal = Num 5834, interest = Num 58,
                  remaining = Num 0\<rparr>]) \<and>
   reschedule_with exact None (Some 100000) (1 / 100) 40000 4 1
       [\<lparr>pmonth = Some 2, amount = Some 10000\<rparr>, \<lparr>pmonth = Some 0, amount = Some 7\<rparr>,
        \<lparr>pmonth = Some 9, amount = Some 0\<rparr>] =
     Some (Inr \<lparr>simLog = [EMI 2 40000 610 39390 21610, PREPAY 2 10000 21610 11610],
       outstandingAfterPrepayments = 11610,
       keepEMI = \<lparr>monthsToFinish = Num 1,
           schedule = [\<lparr>month = 1, emi_paid = Num 11726, principal = Num 11610,
                         interest = Num 116, remaining = Num 0\<rparr>],
           totalInterest = Num 116, error = None\<rparr>,
       reduceEMI = \<lparr>newEmi = Num 5892,
         remainingSchedule =
           [\<lparr>month = 1, emi_paid = Num 5892, principal = Num 5776, interest = Num 116,
              remaining = Num 5834\<rparr>,
            \<lparr>month = 2, emi_paid = Num 5892, principal = Num 5834, interest = Num 58,
              remaining = Num 0\<rparr>],
         totalInterestB = Num 174\<rparr>\<rparr>) \<and>
   {m. \<exists>p\<in>set [\<lparr>pmonth = Some 2, amount = Some 10000\<rparr>, \<lparr>pmonth = Some 3, amount = None\<rparr>].
         pmonth p = Some m \<and> m \<noteq> 0 \<and> (\<forall>a. amount p = Some a \<longrightarrow> 0 < a)} = {2, 3} \<and>
   (3::int) - max 1 (Max {2, 3}) \<le> 0 \<and>
   simulate (1 / 100) 40000
       (build_prepayMap [\<lparr>pmonth = Some 2, amount = Some 10000\<rparr>, \<lparr>pmonth = Some 3, amount = None\<rparr>])
       1 61000 =
     (0, [EMI 2 40000 610 39390 21610, PREPAY 2 10000 21610 11610, EMI 3 11726 116 11610 0]) \<and>
   keepEMI_with exact 40000 0 (1 / 100) =
     Some \<lparr>monthsToFinish = Num 0, schedule = [], totalInterest = Num 0, error = None\<rparr> \<and>
   reschedule_with exact None (Some 100000) (1 / 100) 40000 3 1
       [\<lparr>pmonth = Some 2, amount = Some 10000\<rparr>, \<lparr>pmonth = Some 3, amount = None\<rparr>] =
     Some (Inr \<lparr>simLog = [EMI 2 40000 610 39390 21610, PREPAY 2 10000 21610 11610,
                          EMI 3 11726 116 11610 0],
       outstandingAfterPrepayments = 0,
       keepEMI = \<lparr>monthsToFinish = Num 0, schedule = [], totalInterest = Num 0, error = None\<rparr>,
       reduceEMI = \<lparr>newEmi = Num 0, remainingSchedule = [], totalInterestB = Num 0\<rparr>\<rparr>) \<and>
   amortizeUntilPaid (Num 100000) (1 / 100) (Num 34002) (enat 8) =
     Some (Inr
       [\<lparr>month = 1, emi_paid = Num 34002, principal = Num 33002, interest = Num 1000, remaining = Num 66998\<rparr>,
        \<lparr>month = 2, emi_paid = Num 34002, principal = Num 33332, interest = Num 670, remaining = Num 33666\<rparr>,
        \<lparr>month = 3, emi_paid = Num 34002, principal = Num 33665, interest = Num 337, remaining = Num 1\<rparr>,
        \<lparr>month = 4, emi_paid = Num 1, principal = Num 1, interest = Num 0, remaining = Num 0\<rparr>]) \<and>
   reschedule_with exact None (Some 100000) (1 / 100) 900 3 0 [] =
     Some (Inr \<lparr>simLog = [], outstandingAfterPrepayments = 100000,
       keepEMI = \<lparr>monthsToFinish = PosInf, schedule = [], totalInterest = PosInf, error = None\<rparr>,
       reduceEMI = \<lparr>newEmi = Num 34002,
         remainingSchedule =
           [\<lparr>month = 1, emi_paid = Num 34002, principal = Num 33002, interest = Num 1000, remaining = Num 66998\<rparr>,
            \<lparr>month = 2, emi_paid = Num 34002, principal = Num 33332, interest = Num 670, remaining = Num 33666\<rparr>,
            \<lparr>month = 3, emi_paid = Num 34002, principal = Num 33665, interest = Num 337, remaining = Num 1\<rparr>],
         totalInterestB = Num 2007\<rparr>\<rparr>)"
proof -
  define P where "P = [\<lparr>pmonth = Some 2, amount = Some 10000\<rparr>, \<lparr>pmonth = Some 0, amount = Some 7\<rparr>,
                  \<lparr>pmonth = Some (9::int), amount = Some (0::real)\<rparr>]"
  define Q where "Q = [\<lparr>pmonth = Some 2, amount = Some 10000\<rparr>,
                  \<lparr>pmonth = Some (3::int), amount = (None :: real option)\<rparr>]"
  have start: "startingOutstanding None (Some 100000) (1 / 100) 40000 1 = Inr 61000"
    by (simp add: startingOutstanding_def round_real_def Let_def)
  have plan: "build_prepayMap P = [(2, Some 10000)]"
    by (simp add: P_def build_prepayMap_def add_prepayment_def prepay_or_zero_def)
  have target: "simulateTargetMonth [(2, Some 10000)] 1 = 2"
    by (simp add: simulateTargetMonth_def lastPrepayMonth_def)
  have sim: "simulate (1 / 100) 40000 (build_prepayMap P) 1 61000 =
      (11610, [EMI 2 40000 610 39390 21610, PREPAY 2 10000 21610 11610])"
    unfolding plan
    by (simp add: simulate_def target simulate_loop.simps prepay_at_def emi_step_def
        apply_prepay_def round_real_def)
  have m: "\<lceil>ln (40000 / (40000 - 11610 * (1 / 100))) / ln (1 + 1 / 100 :: real)\<rceil> = (1::int)"
    using ceiling_ln_ratio [of "1 + 1 / 100" 0 "40000 / (40000 - 11610 * (1 / 100))"]
    by simp
  have runA: "amortizeUntilPaid (Num 11610) (1 / 100) (Num 40000) (enat 6) =
      Some (Inr [\<lparr>month = 1, emi_paid = Num 11726, principal = Num 11610,
                         interest = Num 116, remaining = Num 0\<rparr>])"
    by (simp add: amortizeUntilPaid_finite amortize_steps_numeral js_sub_def round_real_def Let_def)
  have A: "keepEMI_with exact 40000 11610 (1 / 100) =
      Some \<lparr>monthsToFinish = Num 1,
           schedule = [\<lparr>month = 1, emi_paid = Num 11726, principal = Num 11610,
                         interest = Num 116, remaining = Num 0\<rparr>],
           totalInterest = Num 116, error = None\<rparr>"
    unfolding keepEMI_of_exact [symmetric]
    by (subst keepEMI_of_finite [OF _ _ _ _ m [symmetric]])
      (simp_all add: runA sum_interest_def)
  have months: "{m. \<exists>p\<in>set P.
         pmonth p = Some m \<and> m \<noteq> 0 \<and> (\<forall>a. amount p = Some a \<longrightarrow> 0 < a)} = {2}"
    by (auto simp: P_def)
  have pos: "(0::int) < 4 - max 1 (Max {2})"
    by simp
  have emi: "computeEMI_with exact 11610 (1 / 100) 2 = Num 5892"
    by (simp add: computeEMI_exact [symmetric] computeEMI_def round_real_def power2_eq_square)
  have runB: "amortizeUntilPaid (Num 11610) (1 / 100) (Num 5892) (enat 7) =
     Some (Inr [\<lparr>month = 1, emi_paid = Num 5892, principal = Num 5776, interest = Num 116,
                  remaining = Num 5834\<rparr>,
                \<lparr>month = 2, emi_paid = Num 5892, principal = Num 5834, interest = Num 58,
                  remaining = Num 0\<rparr>])"
    by (simp add: amortizeUntilPaid_finite amortize_steps_numeral js_sub_def round_real_def Let_def)
  from reduceEMI_scenario [OF start sim A, of 4]
  have resp: "reschedule_with exact None (Some 100000) (1 / 100) 40000 4 1 P =
     Some (Inr \<lparr>simLog = [EMI 2 40000 610 39390 21610, PREPAY 2 10000 21610 11610],
       outstandingAfterPrepayments = 11610,
       keepEMI = \<lparr>monthsToFinish = Num 1,
           schedule = [\<lparr>month = 1, emi_paid = Num 11726, principal = Num 11610,
                         interest = Num 116, remaining = Num 0\<rparr>],
           totalInterest = Num 116, error = None\<rparr>,
       reduceEMI = \<lparr>newEmi = Num 5892,
         remainingSchedule =
           [\<lparr>month = 1, emi_paid = Num 5892, principal = Num 5776, interest = Num 116,
              remaining = Num 5834\<rparr>,
            \<lparr>month = 2, emi_paid = Num 5892, principal = Num 5834, interest = Num 58,
              remaining = Num 0\<rparr>],
         totalInterestB = Num 174\<rparr>\<rparr>)"
    unfolding Let_def months
    by (simp add: emi runB sum_interest_with_def)
  have planQ: "build_prepayMap Q = [(2, Some 10000), (3, None)]"
    by (simp add: Q_def build_prepayMap_def add_prepayment_def prepay_or_zero_def)
  have targetQ: "simulateTargetMonth [(2, Some 10000), (3, None)] 1 = 3"
    by (simp add: simulateTargetMonth_def lastPrepayMonth_def)
  have simQ: "simulate (1 / 100) 40000 (build_prepayMap Q) 1 61000 =
      (0, [EMI 2 40000 610 39390 21610, PREPAY 2 10000 21610 11610, EMI 3 11726 116 11610 0])"
    unfolding planQ
    by (simp add: simulate_def targetQ simulate_loop.simps prepay_at_def emi_step_def
        apply_prepay_def round_real_def)
  have run0: "amortizeUntilPaid (Num 0) (1 / 100) (Num 40000) (enat 5) = Some (Inr [])"
    by (simp add: amortizeUntilPaid_finite amortize_steps_numeral)
  have A0: "keepEMI_with exact 40000 0 (1 / 100) =
      Some \<lparr>monthsToFinish = Num 0, schedule = [], totalInterest = Num 0, error = None\<rparr>"
    by (simp add: keepEMI_with_def js_sub_def run0 sum_interest_with_def Let_def)
  have monthsQ: "{m. \<exists>p\<in>set Q.
         pmonth p = Some m \<and> m \<noteq> 0 \<and> (\<forall>a. amount p = Some a \<longrightarrow> 0 < a)} = {2, 3}"
    by (auto simp: Q_def)
  have deg: "(3::int) - max 1 (Max {2, 3}) \<le> 0"
    by simp
  from reduceEMI_scenario [OF start simQ A0, of 3]
  have resp0: "reschedule_with exact None (Some 100000) (1 / 100) 40000 3 1 Q =
     Some (Inr \<lparr>simLog = [EMI 2 40000 610 39390 21610, PREPAY 2 10000 21610 11610,
                          EMI 3 11726 116 11610 0],
       outstandingAfterPrepayments = 0,
       keepEMI = \<lparr>monthsToFinish = Num 0, schedule = [], totalInterest = Num 0, error = None\<rparr>,
       reduceEMI = \<lparr>newEmi = Num 0, remainingSchedule = [], totalInterestB = Num 0\<rparr>\<rparr>)"
    unfolding Let_def monthsQ
    by simp
  have start3: "startingOutstanding None (Some 100000) (1 / 100) 900 0 = Inr 100000"
    by (simp add: startingOutstanding_def)
  have plan3: "build_prepayMap [] = []"
    by (simp add: build_prepayMap_def)
  have sim3: "simulate (1 / 100) 900 (build_prepayMap []) 0 100000 = (100000, [])"
    unfolding plan3 by (rule simulate_no_prepayment)
  have A3: "keepEMI_with exact 900 100000 (1 / 100) =
      Some \<lparr>monthsToFinish = PosInf, schedule = [], totalInterest = PosInf, error = None\<rparr>"
    unfolding keepEMI_of_exact [symmetric] by (rule keepEMI_of_infinite) simp
  have emi3: "computeEMI_with exact 100000 (1 / 100) 3 = Num 34002"
    by (simp add: computeEMI_exact [symmetric] computeEMI_def round_real_def power3_eq_cube)
  have run3: "amortizeUntilPaid (Num 100000) (1 / 100) (Num 34002) (enat 8) =
     Some (Inr
       [\<lparr>month = 1, emi_paid = Num 34002, principal = Num 33002, interest = Num 1000, remaining = Num 66998\<rparr>,
        \<lparr>month = 2, emi_paid = Num 34002, principal = Num 33332, interest = Num 670, remaining = Num 33666\<rparr>,
        \<lparr>month = 3, emi_paid = Num 34002, principal = Num 33665, interest = Num 337, remaining = Num 1\<rparr>,
        \<lparr>month = 4, emi_paid = Num 1, principal = Num 1, interest = Num 0, remaining = Num 0\<rparr>])"
    by (simp add: amortizeUntilPaid_finite amortize_steps_numeral js_sub_def round_real_def Let_def)
  from reduceEMI_scenario [OF start3 sim3 A3, of 3]
  have resp3: "reschedule_with exact None (Some 100000) (1 / 100) 900 3 0 [] =
     Some (Inr \<lparr>simLog = [], outstandingAfterPrepayments = 100000,
       keepEMI = \<lparr>monthsToFinish = PosInf, schedule = [], totalInterest = PosInf, error = None\<rparr>,
       reduceEMI = \<lparr>newEmi = Num 34002,
         remainingSchedule =
           [\<lparr>month = 1, emi_paid = Num 34002, principal = Num 33002, interest = Num 1000, remaining = Num 66998\<rparr>,
            \<lparr>month = 2, emi_paid = Num 34002, principal = Num 33332, interest = Num 670, remaining = Num 33666\<rparr>,
            \<lparr>month = 3, emi_paid = Num 34002, principal = Num 33665, interest = Num 337, remaining = Num 1\<rparr>],
         totalInterestB = Num 2007\<rparr>\<rparr>)"
    unfolding Let_def
    by (simp add: emi3 run3 sum_interest_with_def)
  show ?thesis
    using start sim A months pos emi runB resp monthsQ deg simQ A0 resp0 run3 resp3
    unfolding P_def Q_def by blast
qed
section \<open>Claim C5: an error inside a scenario\<close>

text \<open>
  C5 says that an "EMI too small to cover interest" error inside either scenario stays with
  that scenario. Scenario A has a \<^verbatim>\<open>try\<close>/\<^verbatim>\<open>catch\<close> of its own; the call of
  \<^verbatim>\<open>amortizeUntilPaid\<close> in Scenario B has none, so its error reaches the \<^verbatim>\<open>catch\<close> of
  the handler and the whole request fails. For the request with principal 100000, annual
  rate 12, EMI 10000, tenure 12, no paid EMI and a prepayment of 90995 at month 1, the
  outstanding after the prepayment is 5. Scenario A succeeds (one month, one row). In
  Scenario B \<^verbatim>\<open>computeEMI\<close> for the 11 remaining months rounds to 0, the interest of the
  first month rounds to 0 as well, the principal is 0 and \<^verbatim>\<open>amortizeUntilPaid\<close> throws:
  the reply is the error, and the result of Scenario A is lost.
\<close>

theorem scenario_B_error_fails_request:
  "reschedule None (Some 100000) 12 10000 12 0 [\<lparr>pmonth = Some 1, amount = Some 90995\<rparr>] =
     Some (Inl EmiTooSmall) \<and>
   startingOutstanding None (Some 100000) (monthlyRate_of 12) 10000 0 = Inr 100000 \<and>
   simulate (monthlyRate_of 12) 10000 (build_prepayMap [\<lparr>pmonth = Some 1, amount = Some 90995\<rparr>])
       0 100000 =
     (5, [EMI 1 10000 1000 9000 91000, PREPAY 1 90995 91000 5]) \<and>
   keepEMI_of 10000 5 (monthlyRate_of 12) =
     Some \<lparr>monthsToFinish = Num 1,
           schedule = [\<lparr>month = 1, emi_paid = Num 5, principal = Num 5, interest = Num 0,
                         remaining = Num 0\<rparr>],
           totalInterest = Num 0, error = None\<rparr> \<and>
   computeEMI 5 (monthlyRate_of 12) 11 = Num 0 \<and>
   amortizeUntilPaid (Num 5) (monthlyRate_of 12) (Num 0) (enat 16) = Some (Inl EmiTooSmall) \<and>
   reduceEMI_of 5 (monthlyRate_of 12) 12 1 = Some (Inl EmiTooSmall)"
proof -
  have start: "startingOutstanding None (Some 100000) (1 / 100) 10000 0 = Inr 100000"
    by (simp add: startingOutstanding_def)
  have plan: "build_prepayMap [\<lparr>pmonth = Some 1, amount = Some 90995\<rparr>] = [(1, Some 90995)]"
    by (simp add: build_prepayMap_def add_prepayment_def prepay_or_zero_def)
  have target: "simulateTargetMonth [(1, Some 90995)] 0 = 1"
    by (simp add: simulateTargetMonth_def lastPrepayMonth_def)
  have sim: "simulate (1 / 100) 10000 [(1, Some 90995)] 0 100000 =
      (5, [EMI 1 10000 1000 9000 91000, PREPAY 1 90995 91000 5])"
    by (simp add: simulate_def target simulate_loop.simps prepay_at_def emi_step_def
        apply_prepay_def round_real_def)
  have m: "\<lceil>ln (10000 / (10000 - 5 * (1 / 100))) / ln (1 + 1 / 100 :: real)\<rceil> = (1::int)"
    using ceiling_ln_ratio [of "1 + 1 / 100" 0 "10000 / (10000 - 5 * (1 / 100))"]
    by simp
  have runA: "amortizeUntilPaid (Num 5) (1 / 100) (Num 10000) (enat 6) =
      Some (Inr [\<lparr>month = 1, emi_paid = Num 5, principal = Num 5, interest = Num 0,
                    remaining = Num 0\<rparr>])"
    by (simp add: amortizeUntilPaid_finite amortize_steps_numeral js_sub_def round_real_def Let_def)
  have A: "keepEMI_of 10000 5 (1 / 100) =
      Some \<lparr>monthsToFinish = Num 1,
            schedule = [\<lparr>month = 1, emi_paid = Num 5, principal = Num 5, interest = Num 0,
                          remaining = Num 0\<rparr>],
            totalInterest = Num 0, error = None\<rparr>"
    by (subst keepEMI_of_finite [OF _ _ _ _ m [symmetric]])
      (simp_all add: runA sum_interest_def)
  have emi: "computeEMI 5 (1 / 100) 11 = Num 0"
    by (simp add: computeEMI_def round_real_def Let_def power_divide)
  have runB: "amortizeUntilPaid (Num 5) (1 / 100) (Num 0) (enat 16) = Some (Inl EmiTooSmall)"
    by (simp add: amortizeUntilPaid_finite amortize_steps_numeral js_sub_def round_real_def Let_def)
  have B: "reduceEMI_of 5 (1 / 100) 12 1 = Some (Inl EmiTooSmall)"
    by (subst reduceEMI_of_positive) (simp_all add: emi runB)
  have resp: "reschedule None (Some 100000) 12 10000 12 0 [\<lparr>pmonth = Some 1, amount = Some 90995\<rparr>] =
     Some (Inl EmiTooSmall)"
    unfolding reschedule_def rate_12 Let_def start plan target
    by (simp add: sim A B)
  show ?thesis
    unfolding rate_12 plan
    using resp start sim A emi runB B by blast
qed

end
